theory Spec2Isabelle
  imports Main "HOL-Library.AList" "HOL-Library.Char_ord" "HOL-Library.List_Lexorder"
begin

section \<open>Values, exceptions and the world\<close>

text \<open>
  A shallow embedding of \<^verbatim>\<open>miio/click_common.py\<close>. Python values are a datatype;
  an object with attributes is \<open>PObj\<close> and carries its attribute dictionary, so that
  \<^verbatim>\<open>getattr(x, name, None)\<close> is a lookup. A bound method that takes no argument is
  \<open>PMethod\<close> and carries the value it returns. Strings are lists of characters, one
  \<open>char\<close> per code point; the code points of the model are those below 256.
\<close>

datatype pyval =
    PNone
  | PBool bool
  | PInt int
  | PStr string
  | PList "pyval list"
  | PDict "(string \<times> pyval) list"
  | PObj "(string \<times> pyval) list"
  | PMethod pyval

text \<open>
  Exceptions are values. \<open>DeviceError\<close> carries the \<^verbatim>\<open>args\<close> tuple of the exception
  object; \<open>BadParameter\<close> and \<open>UsageError\<close> are click's usage errors.
\<close>

datatype exn =
    DeviceError "pyval list"
  | BadParameter string
  | UsageError string
  | RuntimeError string
  | AttributeError string
  | IndexError
  | KeyError string
  | TypeError string
  | OtherError string

text \<open>The device instance, as far as this module reads it: the two caches.\<close>

record device =
  model :: "pyval option"
  info :: "pyval option"

text \<open>
  What a run leaves behind, in order: a value handed to \<^verbatim>\<open>echo\<close>, a message handed to
  \<^verbatim>\<open>_LOGGER.debug\<close>, a call of \<^verbatim>\<open>_fetch_info\<close> on the device at an address.
\<close>

datatype event = Echo pyval | Debug string | FetchInfo nat

text \<open>
  The world threaded through every call: the device instances by address, the
  dictionaries that are mutated in place (the \<^verbatim>\<open>kwargs\<close> of each command descriptor)
  by address, and the trace of events.
\<close>

record world =
  devices :: "nat \<Rightarrow> device"
  dicts :: "nat \<Rightarrow> (string \<times> pyval) list"
  trace :: "event list"

type_synonym 'a comp = "world \<Rightarrow> (exn + 'a) \<times> world"

text \<open>A callable takes \<^verbatim>\<open>*args\<close> and \<^verbatim>\<open>**kwargs\<close>; a bound function takes \<^verbatim>\<open>self\<close> first.\<close>

type_synonym callable = "pyval list \<Rightarrow> (string \<times> pyval) list \<Rightarrow> pyval comp"
type_synonym pymethod = "nat \<Rightarrow> callable"
type_synonym decorator = "callable \<Rightarrow> callable"

definition echo :: "pyval \<Rightarrow> world \<Rightarrow> world" where
  "echo v w = w\<lparr>trace := trace w @ [Echo v]\<rparr>"

definition log_debug :: "string \<Rightarrow> world \<Rightarrow> world" where
  "log_debug s w = w\<lparr>trace := trace w @ [Debug s]\<rparr>"

text \<open>\<^verbatim>\<open>getattr(x, name, None)\<close>: only objects have the attributes asked for here.\<close>

fun getattr :: "pyval \<Rightarrow> string \<Rightarrow> pyval" where
  "getattr (PObj attrs) a = (case map_of attrs a of None \<Rightarrow> PNone | Some v \<Rightarrow> v)"
| "getattr _ a = PNone"

text \<open>\<^verbatim>\<open>d.pop(key, default)\<close> on the dictionary at address \<open>r\<close>.\<close>

definition dict_pop :: "nat \<Rightarrow> string \<Rightarrow> pyval \<Rightarrow> world \<Rightarrow> pyval \<times> world" where
  "dict_pop r k dflt w =
     (case map_of (dicts w r) k of
        None \<Rightarrow> (dflt, w)
      | Some v \<Rightarrow> (v, w\<lparr>dicts := (dicts w)(r := AList.delete k (dicts w r))\<rparr>))"

text \<open>\<^verbatim>\<open>d.setdefault(key, value)\<close> on the dictionary at address \<open>r\<close>.\<close>

definition dict_setdefault :: "nat \<Rightarrow> string \<Rightarrow> pyval \<Rightarrow> world \<Rightarrow> world" where
  "dict_setdefault r k v w =
     (case map_of (dicts w r) k of
        None \<Rightarrow> w\<lparr>dicts := (dicts w)(r := dicts w r @ [(k, v)])\<rparr>
      | Some _ \<Rightarrow> w)"

text \<open>Truth value of a Python object, for the values of this model.\<close>

fun truthy :: "pyval \<Rightarrow> bool" where
  "truthy PNone = False"
| "truthy (PBool b) = b"
| "truthy (PInt i) = (i \<noteq> 0)"
| "truthy (PStr s) = (s \<noteq> [])"
| "truthy (PList xs) = (xs \<noteq> [])"
| "truthy (PDict kvs) = (kvs \<noteq> [])"
| "truthy (PObj attrs) = True"
| "truthy (PMethod v) = True"

text \<open>Calling a value without arguments: only a method can be called.\<close>

fun call0 :: "pyval \<Rightarrow> exn + pyval" where
  "call0 (PMethod v) = Inr v"
| "call0 _ = Inl (TypeError ''object is not callable'')"

text \<open>\<^verbatim>\<open>"%s" % n\<close> for a length: the decimal digits.\<close>

fun str_of_nat :: "nat \<Rightarrow> string" where
  "str_of_nat n =
     (if n < 10 then [char_of (48 + n)]
      else str_of_nat (n div 10) @ [char_of (48 + n mod 10)])"

declare str_of_nat.simps [simp del]

text \<open>\<^verbatim>\<open>str(i)\<close> for an integer.\<close>

definition str_of_int :: "int \<Rightarrow> string" where
  "str_of_int i = (if i < 0 then CHR ''-'' # str_of_nat (nat (- i)) else str_of_nat (nat i))"

text \<open>
  \<^verbatim>\<open>str.strip()\<close>: the white space of Python among the code points below 256.
\<close>

definition isspace :: "char \<Rightarrow> bool" where
  "isspace c = ((of_char c :: nat) \<in> {9, 10, 11, 12, 13, 28, 29, 30, 31, 32, 133, 160})"

definition str_strip :: "string \<Rightarrow> string" where
  "str_strip s = rev (dropWhile isspace (rev (dropWhile isspace s)))"

text \<open>
  \<^verbatim>\<open>str.lower()\<close> on the code points below 256: the capitals are \<^verbatim>\<open>A\<close> to \<^verbatim>\<open>Z\<close> and
  the code points \<^verbatim>\<open>0xC0\<close> to \<^verbatim>\<open>0xDE\<close> other than the multiplication sign \<^verbatim>\<open>0xD7\<close>, and
  each has its lower-case form 32 code points above it.
\<close>

definition lower_char :: "char \<Rightarrow> char" where
  "lower_char c =
     (if (CHR ''A'' \<le> c \<and> c \<le> CHR ''Z'')
         \<or> (CHR 0xC0 \<le> c \<and> c \<le> CHR 0xDE \<and> c \<noteq> CHR 0xD7)
      then char_of (of_char c + (32::nat)) else c)"

definition str_lower :: "string \<Rightarrow> string" where
  "str_lower s = map lower_char s"

text \<open>
  What this module takes from outside is a parameter of the model: the library
  functions \<^verbatim>\<open>str.format(**kwargs)\<close>, which raises on a field that is missing, and
  \<^verbatim>\<open>json.dumps(value, indent=indent)\<close>, which raises on a value that has no JSON form,
  and the attribute lookup \<^verbatim>\<open>getattr(owner, name)\<close> for the functions bound in the
  class of the instance at an address. The body of \<^verbatim>\<open>_fetch_info\<close>, which changes the
  device it runs on and may raise, is passed where it is called.
\<close>

record env =
  str_format :: "string \<Rightarrow> (string \<times> pyval) list \<Rightarrow> exn + string"
  json_dumps :: "nat option \<Rightarrow> pyval \<Rightarrow> exn + string"
  getattr_owner :: "nat \<Rightarrow> string \<Rightarrow> pymethod option"

type_synonym fetch = "device \<Rightarrow> exn option \<times> device"

section \<open>Output pipeline\<close>

text \<open>
  A message format is a template string or a callable on the keyword arguments
  (\<^verbatim>\<open>Union[str, Callable]\<close>).
\<close>

datatype fmt = Template string | Fn "(string \<times> pyval) list \<Rightarrow> exn + string"

fun fmt_callable :: "fmt \<Rightarrow> bool" where
  "fmt_callable (Template t) = False"
| "fmt_callable (Fn f) = True"

fun fmt_truthy :: "fmt \<Rightarrow> bool" where
  "fmt_truthy (Template t) = (t \<noteq> [])"
| "fmt_truthy (Fn f) = True"

text \<open>
  \<^verbatim>\<open>fmt(**kwargs) if callable(fmt) else fmt.format(**kwargs)\<close>.
\<close>

definition render :: "env \<Rightarrow> fmt \<Rightarrow> (string \<times> pyval) list \<Rightarrow> exn + string" where
  "render E f kwargs = (case f of Fn g \<Rightarrow> g kwargs | Template t \<Rightarrow> str_format E t kwargs)"

text \<open>
  The block that \<^verbatim>\<open>format_output\<close> runs for either message:
  \<^verbatim>\<open>if fmt: msg = render(fmt); if msg: echo(msg.strip())\<close>.
\<close>

definition emit_message :: "env \<Rightarrow> fmt \<Rightarrow> (string \<times> pyval) list \<Rightarrow> world \<Rightarrow> exn + world" where
  "emit_message E f kwargs w =
     (if fmt_truthy f
      then (case render E f kwargs of
              Inl e \<Rightarrow> Inl e
            | Inr msg \<Rightarrow> Inr (if msg \<noteq> [] then echo (PStr (str_strip msg)) w else w))
      else Inr w)"

text \<open>
  \<^verbatim>\<open>format_output(msg_fmt, result_msg_fmt)(func)\<close>, the function \<^verbatim>\<open>wrap\<close>. It has no
  \<^verbatim>\<open>return\<close>: where it ends normally its value is \<^verbatim>\<open>None\<close>.
\<close>

definition format_output :: "env \<Rightarrow> fmt \<Rightarrow> fmt \<Rightarrow> decorator" where
  "format_output E msg_fmt result_msg_fmt func args kwargs w =
     (case emit_message E msg_fmt kwargs w of
        Inl e \<Rightarrow> (Inl e, w)
      | Inr w1 \<Rightarrow>
          (case func args kwargs w1 of
             (Inl e, w2) \<Rightarrow> (Inl e, w2)
           | (Inr result, w2) \<Rightarrow>
               (let kwargs = AList.update ''result'' result kwargs in
                if \<not> fmt_callable result_msg_fmt \<and> getattr result ''__cli_output__'' \<noteq> PNone
                then (Inr PNone, echo (getattr result ''__cli_output__'') w2)
                else (case emit_message E result_msg_fmt kwargs w2 of
                        Inl e \<Rightarrow> (Inl e, w2)
                      | Inr w3 \<Rightarrow> (Inr PNone, w3)))))"

text \<open>
  \<^verbatim>\<open>json_output(pretty)(func)\<close>, the function \<^verbatim>\<open>wrap\<close>. \<^verbatim>\<open>ex.args[0]\<close> raises
  \<^verbatim>\<open>IndexError\<close> on an exception built without arguments; every other exception
  passes through.
\<close>

definition json_output :: "env \<Rightarrow> bool \<Rightarrow> decorator" where
  "json_output E pretty func args kwargs w =
     (let indent = (if pretty then Some 2 else None) in
      case func args kwargs w of
        (Inl (DeviceError ex_args), w1) \<Rightarrow>
          (case ex_args of
             [] \<Rightarrow> (Inl IndexError, w1)
           | payload # _ \<Rightarrow>
               (case json_dumps E indent payload of
                  Inl e \<Rightarrow> (Inl e, w1)
                | Inr s \<Rightarrow> (Inr PNone, echo (PStr s) w1)))
      | (Inl e, w1) \<Rightarrow> (Inl e, w1)
      | (Inr result, w1) \<Rightarrow>
          (let get_json_data_func = getattr result ''__json__'';
               data_variable = getattr result ''data''
           in case (if get_json_data_func \<noteq> PNone then call0 get_json_data_func
                    else if data_variable \<noteq> PNone then Inr data_variable
                    else Inr result) of
                Inl e \<Rightarrow> (Inl e, w1)
              | Inr result \<Rightarrow>
                  (case json_dumps E indent result of
                     Inl e \<Rightarrow> (Inl e, w1)
                   | Inr s \<Rightarrow> (Inr PNone, echo (PStr s) w1))))"

section \<open>Command descriptors\<close>

text \<open>A Python function: its \<^verbatim>\<open>__name__\<close>, its \<^verbatim>\<open>__doc__\<close> and its body.\<close>

record pyfunc =
  fn_name :: string
  fn_doc :: pyval
  fn_body :: pymethod

text \<open>
  \<^verbatim>\<open>DeviceGroup.Command\<close>. \<^verbatim>\<open>__init__\<close> sets the first four attributes; \<open>kwargs\<close> is
  the address of the dictionary of registration options, which is mutated in place
  later. \<^verbatim>\<open>__call__\<close> adds \<open>func\<close>, and only an object that went through \<^verbatim>\<open>__call__\<close>
  is ever found in a class namespace, so the registry holds the extended record.
\<close>

record Command_new =
  name :: "string option"
  decorators :: "decorator list"
  default_output :: "decorator option"
  kwargs :: nat

record Command = Command_new +
  func :: pyfunc

definition Command_init ::
  "string option \<Rightarrow> decorator list \<Rightarrow> decorator option \<Rightarrow> nat \<Rightarrow> Command_new" where
  "Command_init nm decs dflt kw =
     \<lparr>name = nm, decorators = rev decs, default_output = dflt, kwargs = kw\<rparr>"

text \<open>\<^verbatim>\<open>command(*decorators, name=None, default_output=None, **kwargs)\<close>.\<close>

definition command ::
  "decorator list \<Rightarrow> string option \<Rightarrow> decorator option \<Rightarrow> nat \<Rightarrow> Command_new" where
  "command decs nm dflt kw = Command_init nm decs dflt kw"

text \<open>\<^verbatim>\<open>self.name or self.func.__name__.lower()\<close>.\<close>

definition command_name :: "Command \<Rightarrow> string" where
  "command_name self =
     (case name self of
        None \<Rightarrow> str_lower (fn_name (func self))
      | Some n \<Rightarrow> if n \<noteq> [] then n else str_lower (fn_name (func self)))"

text \<open>
  \<^verbatim>\<open>self._fetch_info()\<close>: the call is recorded in the trace, then the body supplied by
  the device class runs on the instance.
\<close>

definition call_fetch_info :: "fetch \<Rightarrow> nat \<Rightarrow> pyval comp" where
  "call_fetch_info fetch_info self w =
     (let w1 = w\<lparr>trace := trace w @ [FetchInfo self]\<rparr>;
          r = fetch_info (devices w1 self);
          w2 = w1\<lparr>devices := (devices w1)(self := snd r)\<rparr>
      in (case fst r of None \<Rightarrow> (Inr PNone, w2) | Some e \<Rightarrow> (Inl e, w2)))"

text \<open>
  \<^verbatim>\<open>_autodetect_model_if_needed(func)\<close>, the function \<^verbatim>\<open>_wrap\<close>, for the function of
  the descriptor \<open>cmd\<close>; \<^verbatim>\<open>func._device_group_command\<close> is \<open>cmd\<close> itself.
\<close>

definition autodetect_model_if_needed :: "fetch \<Rightarrow> Command \<Rightarrow> pymethod" where
  "autodetect_model_if_needed fetch_info cmd self args kw w =
     (let p = dict_pop (kwargs cmd) ''skip_autodetect'' (PBool False) w;
          skip_autodetect = fst p;
          w1 = snd p
      in if \<not> truthy skip_autodetect
            \<and> model (devices w1 self) = None \<and> info (devices w1 self) = None
         then (case call_fetch_info fetch_info self
                      (log_debug ''Unknown model, trying autodetection'' w1) of
                 (Inl e, w2) \<Rightarrow> (Inl e, w2)
               | (Inr _, w2) \<Rightarrow> fn_body (func cmd) self args kw w2)
         else fn_body (func cmd) self args kw w1)"

text \<open>
  \<^verbatim>\<open>Command.__call__(func)\<close>: the descriptor with its function, the world with the
  help text defaulted, and the guarded function that the class namespace binds.
\<close>

definition Command_call ::
  "fetch \<Rightarrow> Command_new \<Rightarrow> pyfunc \<Rightarrow> world \<Rightarrow> (Command \<times> pymethod) \<times> world" where
  "Command_call fetch_info self f w =
     (let cmd = \<lparr>name = name self, decorators = decorators self,
                 default_output = default_output self, kwargs = kwargs self, func = f\<rparr>
      in ((cmd, autodetect_model_if_needed fetch_info cmd),
          dict_setdefault (kwargs self) ''help'' (fn_doc f) w))"

section \<open>Contexts and resolved commands\<close>

record GlobalContextObject =
  debug :: int
  gco_output :: "decorator option"

text \<open>
  A click context, as far as it is asked here: what \<^verbatim>\<open>find_object\<close> returns for
  \<^verbatim>\<open>GlobalContextObject\<close> and for the device class (the address of the instance).
  The context current at the call of a resolved command answers as the context of
  its resolution does.
\<close>

record Context =
  find_gco :: "GlobalContextObject option"
  find_device :: "nat option"

text \<open>What \<^verbatim>\<open>click.command(name, **attrs)(func)\<close> builds.\<close>

record click_Command =
  cmd_name :: string
  cmd_attrs :: "(string \<times> pyval) list"
  callback :: callable

definition click_command :: "string \<Rightarrow> (string \<times> pyval) list \<Rightarrow> callable \<Rightarrow> click_Command" where
  "click_command nm attrs f = \<lparr>cmd_name = nm, cmd_attrs = attrs, callback = f\<rparr>"

text \<open>
  \<^verbatim>\<open>click.make_pass_decorator(device_class)\<close>: the instance found in the context is
  passed first; without one the call fails.
\<close>

definition device_pass :: "Context \<Rightarrow> pymethod \<Rightarrow> callable" where
  "device_pass ctx f args kw w =
     (case find_device ctx of
        None \<Rightarrow> (Inl (RuntimeError ''Managed to invoke callback without a context object''), w)
      | Some obj \<Rightarrow> f obj args kw w)"

text \<open>\<^verbatim>\<open>Command.call(owner, *args, **kwargs)\<close>.\<close>

definition Command_call_method :: "env \<Rightarrow> Command \<Rightarrow> pymethod" where
  "Command_call_method E self owner args kw w =
     (case getattr_owner E owner (fn_name (func self)) of
        None \<Rightarrow> (Inl (AttributeError (fn_name (func self))), w)
      | Some m \<Rightarrow> m owner args kw w)"

text \<open>\<^verbatim>\<open>DeviceGroup.command_callback(miio_command, miio_device, *args, **kwargs)\<close>.\<close>

definition command_callback :: "env \<Rightarrow> Command \<Rightarrow> pymethod" where
  "command_callback E miio_command miio_device args kw =
     Command_call_method E miio_command miio_device args kw"

text \<open>The choice of the output strategy at the head of \<^verbatim>\<open>Command.wrap\<close>.\<close>

definition select_output :: "env \<Rightarrow> Command \<Rightarrow> Context \<Rightarrow> decorator" where
  "select_output E self ctx =
     (let gco = find_gco ctx in
      if gco \<noteq> None \<and> gco_output (the gco) \<noteq> None then the (gco_output (the gco))
      else if default_output self \<noteq> None then the (default_output self)
      else format_output E (Template (''Running command '' @ command_name self))
             (Template ''{result}''))"

text \<open>
  \<^verbatim>\<open>Command.wrap(ctx, func)\<close>: the option \<^verbatim>\<open>skip_autodetect\<close> is removed from the
  descriptor's dictionary, then the stored decorators are applied in stored order.
\<close>

definition Command_wrap :: "env \<Rightarrow> Command \<Rightarrow> Context \<Rightarrow> callable \<Rightarrow> world \<Rightarrow> click_Command \<times> world" where
  "Command_wrap E self ctx f w =
     (let out = select_output E self ctx;
          w1 = snd (dict_pop (kwargs self) ''skip_autodetect'' PNone w);
          f1 = out f;
          f2 = fold (\<lambda>decorator g. decorator g) (decorators self) f1
      in (click_command (command_name self) (dicts w1 (kwargs self)) f2, w1))"

section \<open>The command registry of a class\<close>

text \<open>
  A Python \<^verbatim>\<open>dict\<close> keeps its keys in insertion order: an association list with
  \<open>AList.update\<close>, which replaces the value of a present key in place and appends an
  absent one. \<^verbatim>\<open>d.update(other)\<close> stores the items of \<open>other\<close> in their order.
\<close>

definition dict_update :: "('k \<times> 'v) list \<Rightarrow> ('k \<times> 'v) list \<Rightarrow> ('k \<times> 'v) list" where
  "dict_update d other = fold (\<lambda>kv acc. AList.update (fst kv) (snd kv) acc) other d"

text \<open>
  A value of a class namespace, as far as the metaclass looks at it: whether it is
  callable, and its attribute \<^verbatim>\<open>_device_group_command\<close> if it has one.
\<close>

datatype nsval = NsVal (is_callable: bool) (device_group_command: "Command option")

text \<open>
  A class object: name, direct bases, namespace, and the namespace entry
  \<^verbatim>\<open>_device_group_commands\<close> kept apart (\<open>None\<close> for a class that has none).
\<close>

datatype cls =
  Cls (cls_name: string) (cls_bases: "cls list") (cls_namespace: "(string \<times> nsval) list")
      (device_group_commands: "(string \<times> Command) list option")

text \<open>\<^verbatim>\<open>_get_commands_for_namespace(namespace)\<close>.\<close>

definition get_commands_for_namespace :: "(string \<times> nsval) list \<Rightarrow> (string \<times> Command) list" where
  "get_commands_for_namespace namespace =
     fold (\<lambda>item commands.
             if \<not> is_callable (snd item) then commands
             else (case device_group_command (snd item) of
                     None \<Rightarrow> commands
                   | Some c \<Rightarrow> AList.update (command_name c) c commands))
          namespace []"

text \<open>\<^verbatim>\<open>getattr(base, "_device_group_commands", {})\<close>.\<close>

definition class_commands :: "cls \<Rightarrow> (string \<times> Command) list" where
  "class_commands base = (case device_group_commands base of None \<Rightarrow> [] | Some r \<Rightarrow> r)"

text \<open>
  \<^verbatim>\<open>DeviceGroupMeta.__new__(mcs, name, bases, namespace)\<close>. The class method
  \<^verbatim>\<open>get_device_group\<close> is added to the namespace when absent. The set
  \<^verbatim>\<open>_device_classes\<close> of the metaclass is not read by any function here and is left out.
\<close>

definition DeviceGroupMeta_new :: "string \<Rightarrow> cls list \<Rightarrow> (string \<times> nsval) list \<Rightarrow> cls" where
  "DeviceGroupMeta_new nm bases namespace =
     (let commands = fold (\<lambda>base commands. dict_update commands (class_commands base)) bases [];
          commands = dict_update commands (get_commands_for_namespace namespace);
          namespace = (if ''get_device_group'' \<notin> fst ` set namespace
                       then namespace @ [(''get_device_group'', NsVal False None)]
                       else namespace)
      in Cls nm bases namespace (Some commands))"

text \<open>
  The classes a program can define: a class built by the metaclass from defined bases
  (a device type), or a plain class, which has no registry and, the metaclass being
  inherited, only plain bases.
\<close>

inductive class_defined :: "cls \<Rightarrow> bool" where
  plain: "\<forall>b \<in> set bases. class_defined b \<and> device_group_commands b = None
            \<Longrightarrow> class_defined (Cls nm bases namespace None)"
| device_type: "\<forall>b \<in> set bases. class_defined b
            \<Longrightarrow> class_defined (DeviceGroupMeta_new nm bases namespace)"

text \<open>All proper ancestors of a class.\<close>

fun ancestors :: "cls \<Rightarrow> cls set" where
  "ancestors (Cls nm bases namespace r) = (\<Union>b \<in> set bases. insert b (ancestors b))"

text \<open>
  A class \<open>c\<close>, built by the metaclass or plain, declares command \<open>n\<close> with descriptor
  \<open>d\<close>: its namespace holds a callable tagged with \<open>d\<close>, and \<open>n\<close> is the command name
  of \<open>d\<close>. This is said of the class itself, not of what the metaclass collects.
\<close>

definition declares :: "cls \<Rightarrow> string \<Rightarrow> Command \<Rightarrow> bool" where
  "declares c n d \<longleftrightarrow>
     (\<exists>item \<in> set (cls_namespace c).
        is_callable (snd item) \<and> device_group_command (snd item) = Some d)
     \<and> command_name d = n"

text \<open>A device type: a class that carries a registry.\<close>

definition is_device_type :: "cls \<Rightarrow> bool" where
  "is_device_type c \<longleftrightarrow> device_group_commands c \<noteq> None"

section \<open>The command group\<close>

record DeviceGroup =
  commands :: "(string \<times> Command) list"
  device_class :: cls

text \<open>\<^verbatim>\<open>DeviceGroup.__init__(device_class)\<close>, as far as it concerns the registry.\<close>

definition DeviceGroup_init :: "cls \<Rightarrow> exn + DeviceGroup" where
  "DeviceGroup_init dcls =
     (case device_group_commands dcls of
        None \<Rightarrow> Inl (RuntimeError ''Class {} doesn't use DeviceGroupMeta meta class. It can't be used with DeviceGroup.'')
      | Some c \<Rightarrow> Inr \<lparr>commands = c, device_class = dcls\<rparr>)"

text \<open>\<^verbatim>\<open>DeviceGroup.get_command(ctx, cmd_name)\<close>; \<^verbatim>\<open>ctx.fail\<close> raises a usage error.\<close>

definition get_command :: "env \<Rightarrow> DeviceGroup \<Rightarrow> Context \<Rightarrow> string \<Rightarrow> click_Command comp" where
  "get_command E self ctx nm w =
     (case map_of (commands self) nm of
        None \<Rightarrow> (Inl (UsageError (''Unknown command ('' @ nm @ '')'')), w)
      | Some cmd \<Rightarrow>
          (let r = Command_wrap E cmd ctx (device_pass ctx (command_callback E cmd)) w
           in (Inr (fst r), snd r)))"

text \<open>\<^verbatim>\<open>DeviceGroup.list_commands(ctx)\<close>: \<^verbatim>\<open>sorted(self.commands.keys())\<close>.\<close>

definition list_commands :: "DeviceGroup \<Rightarrow> string list" where
  "list_commands self = sort (map fst (commands self))"

section \<open>Option validation\<close>

text \<open>
  \<^verbatim>\<open>validate_token(ctx, param, value)\<close>; the context and the parameter are not read. A
  missing value is \<open>None\<close>.
\<close>

definition validate_token :: "string option \<Rightarrow> exn + string option" where
  "validate_token value =
     (case value of
        None \<Rightarrow> Inr None
      | Some v \<Rightarrow>
          (let token_len = length v in
           if token_len \<noteq> 32
           then Inl (BadParameter (''Token length != 32 chars: '' @ str_of_nat token_len))
           else Inr (Some v)))"

section \<open>Concrete library functions and a concrete device type\<close>

text \<open>
  \<^verbatim>\<open>json.dumps\<close> with its default separators on \<^verbatim>\<open>None\<close>, booleans, integers, strings,
  lists and dictionaries with string keys; an object or a method has no JSON form.
  A string is written as \<^verbatim>\<open>encode_basestring_ascii\<close> writes it.
\<close>

definition hex_digit :: "nat \<Rightarrow> char" where
  "hex_digit n = (if n < 10 then char_of (48 + n) else char_of (87 + n))"

definition escape_char :: "char \<Rightarrow> string" where
  "escape_char c =
     (let n = (of_char c :: nat) in
      if n = 0x5C then [CHR 0x5C, CHR 0x5C]
      else if n = 0x22 then [CHR 0x5C, CHR 0x22]
      else if 0x20 \<le> n \<and> n \<le> 0x7E then [c]
      else if n = 0x08 then [CHR 0x5C, CHR ''b'']
      else if n = 0x0C then [CHR 0x5C, CHR ''f'']
      else if n = 0x0A then [CHR 0x5C, CHR ''n'']
      else if n = 0x0D then [CHR 0x5C, CHR ''r'']
      else if n = 0x09 then [CHR 0x5C, CHR ''t'']
      else [CHR 0x5C, CHR ''u'', CHR ''0'', CHR ''0'', hex_digit (n div 16), hex_digit (n mod 16)])"

definition encode_basestring_ascii :: "string \<Rightarrow> string" where
  "encode_basestring_ascii s = [CHR 0x22] @ concat (map escape_char s) @ [CHR 0x22]"

fun join :: "string \<Rightarrow> string list \<Rightarrow> string" where
  "join sep [] = []"
| "join sep [x] = x"
| "join sep (x # y # ys) = x @ sep @ join sep (y # ys)"

definition newline_indent :: "nat option \<Rightarrow> nat \<Rightarrow> string" where
  "newline_indent indent level =
     (case indent of None \<Rightarrow> [] | Some n \<Rightarrow> CHR 0x0A # replicate (n * level) CHR '' '')"

definition item_separator :: "nat option \<Rightarrow> nat \<Rightarrow> string" where
  "item_separator indent level =
     (case indent of None \<Rightarrow> '', '' | Some n \<Rightarrow> '','' @ newline_indent indent level)"

fun json_encode :: "nat option \<Rightarrow> nat \<Rightarrow> pyval \<Rightarrow> string option" where
  "json_encode indent level PNone = Some ''null''"
| "json_encode indent level (PBool b) = Some (if b then ''true'' else ''false'')"
| "json_encode indent level (PInt i) = Some (str_of_int i)"
| "json_encode indent level (PStr s) = Some (encode_basestring_ascii s)"
| "json_encode indent level (PList xs) =
     (if xs = [] then Some ''[]''
      else map_option
             (\<lambda>items. ''['' @ newline_indent indent (Suc level)
                       @ join (item_separator indent (Suc level)) items
                       @ newline_indent indent level @ '']'')
             (those (map (json_encode indent (Suc level)) xs)))"
| "json_encode indent level (PDict kvs) =
     (if kvs = [] then Some ''{}''
      else map_option
             (\<lambda>items. ''{'' @ newline_indent indent (Suc level)
                       @ join (item_separator indent (Suc level)) items
                       @ newline_indent indent level @ ''}'')
             (those (map (\<lambda>kv. map_option
                                   (\<lambda>s. encode_basestring_ascii (fst kv) @ '': '' @ s)
                                   (json_encode indent (Suc level) (snd kv))) kvs)))"
| "json_encode indent level (PObj attrs) = None"
| "json_encode indent level (PMethod v) = None"

definition py_json_dumps :: "nat option \<Rightarrow> pyval \<Rightarrow> exn + string" where
  "py_json_dumps indent v =
     (case json_encode indent 0 v of
        None \<Rightarrow> Inl (TypeError ''Object is not JSON serializable'')
      | Some s \<Rightarrow> Inr s)"

text \<open>
  \<^verbatim>\<open>str.format\<close> on the two templates the examples render: a template without braces,
  and \<^verbatim>\<open>{result}\<close> for a result that is \<^verbatim>\<open>None\<close>, an integer or a string. Every other
  call is answered with an error.
\<close>

definition example_format :: "string \<Rightarrow> (string \<times> pyval) list \<Rightarrow> exn + string" where
  "example_format t kw =
     (if CHR ''{'' \<notin> set t \<and> CHR ''}'' \<notin> set t then Inr t
      else if t = ''{result}'' then
        (case map_of kw ''result'' of
           Some PNone \<Rightarrow> Inr ''None''
         | Some (PInt i) \<Rightarrow> Inr (str_of_int i)
         | Some (PStr s) \<Rightarrow> Inr s
         | _ \<Rightarrow> Inl (OtherError ''template not covered''))
      else Inl (OtherError ''template not covered''))"

text \<open>A decorator that echoes its name and then calls what it wraps.\<close>

definition announce :: "string \<Rightarrow> decorator" where
  "announce s f args kw w = f args kw (echo (PStr s) w)"

text \<open>A \<^verbatim>\<open>_fetch_info\<close> that fills both caches.\<close>

definition example_fetch :: fetch where
  "example_fetch d = (None, d\<lparr>model := Some (PStr ''demo.device.v1''), info := Some (PDict [])\<rparr>)"

text \<open>
  \<^verbatim>\<open>@command(announce("d1"), announce("d2"), skip_autodetect=True) def Status(self): return 42\<close>,
  with the option dictionary at address 0, in a world with one device, at address 0,
  whose caches are empty.
\<close>

definition Status :: pyfunc where
  "Status = \<lparr>fn_name = ''Status'', fn_doc = PStr ''Show the status.'',
             fn_body = (\<lambda>self args kw w. (Inr (PInt 42), w))\<rparr>"

definition world0 :: world where
  "world0 = \<lparr>devices = (\<lambda>a. \<lparr>model = None, info = None\<rparr>),
             dicts = (\<lambda>a. if a = 0 then [(''skip_autodetect'', PBool True)] else []),
             trace = []\<rparr>"

definition status_cmd :: Command where
  "status_cmd =
     fst (fst (Command_call example_fetch
                 (command [announce ''d1'', announce ''d2''] None None 0) Status world0))"

definition world1 :: world where
  "world1 =
     snd (Command_call example_fetch
            (command [announce ''d1'', announce ''d2''] None None 0) Status world0)"

definition example_env :: env where
  "example_env =
     \<lparr>str_format = example_format, json_dumps = py_json_dumps,
      getattr_owner = (\<lambda>owner n. if n = ''Status''
                                   then Some (autodetect_model_if_needed example_fetch status_cmd)
                                   else None)\<rparr>"

definition example_ctx :: Context where
  "example_ctx = \<lparr>find_gco = None, find_device = Some 0\<rparr>"

text \<open>
  A base type declaring \<^verbatim>\<open>status\<close> and \<^verbatim>\<open>reboot\<close>, and a type derived from it that
  declares \<^verbatim>\<open>status\<close> again and adds \<^verbatim>\<open>info\<close>.
\<close>

definition simple_cmd :: "string \<Rightarrow> nat \<Rightarrow> Command" where
  "simple_cmd n kw =
     \<lparr>name = Some n, decorators = [], default_output = None, kwargs = kw,
      func = \<lparr>fn_name = n, fn_doc = PNone, fn_body = (\<lambda>self args kw w. (Inr PNone, w))\<rparr>\<rparr>"

definition BaseDevice :: cls where
  "BaseDevice =
     DeviceGroupMeta_new ''BaseDevice'' []
       [(''retries'', NsVal False None),
        (''status'', NsVal True (Some (simple_cmd ''status'' 1))),
        (''reboot'', NsVal True (Some (simple_cmd ''reboot'' 2))),
        (''send'', NsVal True None)]"

definition DerivedDevice :: cls where
  "DerivedDevice =
     DeviceGroupMeta_new ''DerivedDevice'' [BaseDevice]
       [(''status'', NsVal True (Some (simple_cmd ''status'' 3))),
        (''info'', NsVal True (Some (simple_cmd ''info'' 4)))]"

text \<open>
  The device type that declares \<^verbatim>\<open>Status\<close>, its command group, the command resolved
  under the name \<^verbatim>\<open>status\<close> after the class is defined, and one call of what was
  resolved, without arguments.
\<close>

definition StatusDevice :: cls where
  "StatusDevice =
     DeviceGroupMeta_new ''StatusDevice'' [] [(''Status'', NsVal True (Some status_cmd))]"

definition status_group :: DeviceGroup where
  "status_group = \<lparr>commands = class_commands StatusDevice, device_class = StatusDevice\<rparr>"

definition status_resolved :: "(exn + click_Command) \<times> world" where
  "status_resolved = get_command example_env status_group example_ctx ''status'' world1"

definition status_run :: "(exn + pyval) \<times> world" where
  "status_run =
     (case status_resolved of
        (Inl e, w) \<Rightarrow> (Inl e, w)
      | (Inr c, w) \<Rightarrow> callback c [] [] w)"

text \<open>
  A device type derived from \<open>DerivedDevice\<close> that declares \<^verbatim>\<open>ping\<close> only; a plain
  class, not built by the metaclass, that tags a command \<^verbatim>\<open>foo\<close>, and a device type
  with that class as its base.
\<close>

definition LeafDevice :: cls where
  "LeafDevice =
     DeviceGroupMeta_new ''LeafDevice'' [DerivedDevice]
       [(''ping'', NsVal True (Some (simple_cmd ''ping'' 5)))]"

definition Mixin :: cls where
  "Mixin = Cls ''Mixin'' [] [(''foo'', NsVal True (Some (simple_cmd ''foo'' 6)))] None"

definition MixedDevice :: cls where
  "MixedDevice =
     DeviceGroupMeta_new ''MixedDevice'' [Mixin]
       [(''status'', NsVal True (Some (simple_cmd ''status'' 7)))]"

text \<open>
  A device type that lists \<open>DerivedDevice\<close> and then its base \<open>BaseDevice\<close> as bases
  and declares nothing itself.
\<close>

definition JoinedDevice :: cls where
  "JoinedDevice = DeviceGroupMeta_new ''JoinedDevice'' [DerivedDevice, BaseDevice] []"

text \<open>
  The class of the device instance overrides \<^verbatim>\<open>Status\<close> with a function that is not
  tagged as a command: the attribute lookup on the instance finds the override. The
  command \<^verbatim>\<open>status\<close> of the group is resolved and called once as before.
\<close>

definition override_env :: env where
  "override_env =
     \<lparr>str_format = example_format, json_dumps = py_json_dumps,
      getattr_owner = (\<lambda>owner n. if n = ''Status''
                                   then Some (\<lambda>self args kw w.
                                               (Inr (PStr ''overridden''),
                                                echo (PStr ''override'') w))
                                   else None)\<rparr>"

definition override_run :: "(exn + pyval) \<times> world" where
  "override_run =
     (case get_command override_env status_group example_ctx ''status'' world1 of
        (Inl e, w) \<Rightarrow> (Inl e, w)
      | (Inr c, w) \<Rightarrow> callback c [] [] w)"

section \<open>Verified properties\<close>

text \<open>
  C9. Token validation returns every 32-character string unchanged; a string of
  any other length is refused with a usage error whose message names the expected
  length 32 and, in decimal, the actual length.
\<close>

theorem validate_token_length:
  "(length v = 32 \<longrightarrow> validate_token (Some v) = Inr (Some v)) \<and>
   (length v \<noteq> 32 \<longrightarrow>
      validate_token (Some v) =
        Inl (BadParameter (''Token length != 32 chars: '' @ str_of_nat (length v))))"
  by (simp add: validate_token_def)

theorem validate_token_length_witness:
  "validate_token (Some (replicate 32 CHR ''a'')) = Inr (Some (replicate 32 CHR ''a'')) \<and>
   validate_token (Some (replicate 31 CHR ''a'')) =
     Inl (BadParameter ''Token length != 32 chars: 31'')"
proof -
  have d: "str_of_nat 31 = ''31''"
    by code_simp
  show ?thesis
    using validate_token_length [of "replicate 32 CHR ''a''"]
          validate_token_length [of "replicate 31 CHR ''a''"]
    by (simp add: d)
qed

subsection \<open>The concrete values\<close>

lemma status_cmd_eq:
  "status_cmd = \<lparr>name = None, decorators = [announce ''d2'', announce ''d1''],
                 default_output = None, kwargs = 0, func = Status\<rparr>"
  by (simp add: status_cmd_def Command_call_def command_def Command_init_def Let_def)

lemma world1_eq:
  "world1 = world0\<lparr>dicts := (dicts world0)
              (0 := [(''skip_autodetect'', PBool True), (''help'', PStr ''Show the status.'')])\<rparr>"
  by (simp add: world1_def Command_call_def command_def Command_init_def dict_setdefault_def
                world0_def Status_def Let_def)

lemma status_cmd_fields:
  "name status_cmd = None"
  "decorators status_cmd = [announce ''d2'', announce ''d1'']"
  "default_output status_cmd = None"
  "kwargs status_cmd = 0"
  "func status_cmd = Status"
  by (simp_all add: status_cmd_eq)

lemma Status_fields:
  "fn_name Status = ''Status''"
  "fn_body Status = (\<lambda>self args kw w. (Inr (PInt 42), w))"
  by (simp_all add: Status_def)

lemma str_lower_Status: "str_lower ''Status'' = ''status''"
  by code_simp

lemma command_name_status: "command_name status_cmd = ''status''"
  by (simp add: command_name_def status_cmd_fields Status_fields str_lower_Status)

lemma str_of_int_42: "str_of_int 42 = ''42''"
  by code_simp

lemma dumps_code7: \<open>py_json_dumps None (PDict [(''code'', PInt 7)]) = Inr ''{"code": 7}''\<close>
  unfolding py_json_dumps_def by code_simp

lemma dumps_code7_pretty:
  \<open>py_json_dumps (Some 2) (PDict [(''code'', PInt 7)])
     = Inr (''{'' @ [CHR 0x0A] @ ''  "code": 7'' @ [CHR 0x0A] @ ''}'')\<close>
  unfolding py_json_dumps_def by code_simp

subsection \<open>Output pipeline\<close>

text \<open>
  C6, as the code has it. With a post-message format that is a template string, a
  result whose \<^verbatim>\<open>__cli_output__\<close> is not \<^verbatim>\<open>None\<close> has that value echoed as it is, and
  the template \<open>t\<close> is not rendered: the outcome does not depend on \<open>t\<close> nor on
  \<^verbatim>\<open>str.format\<close>.
\<close>

theorem format_output_cli_output:
  assumes "emit_message E msg_fmt kw w = Inr w1"
      and "f args kw w1 = (Inr result, w2)"
      and "getattr result ''__cli_output__'' \<noteq> PNone"
  shows "format_output E msg_fmt (Template t) f args kw w
           = (Inr PNone, echo (getattr result ''__cli_output__'') w2)"
  using assms unfolding format_output_def by (simp add: Let_def)

theorem format_output_cli_output_witness:
  "format_output example_env (Template ''Checking'') (Template ''{missing}'')
       (\<lambda>args kw w. (Inr (PObj [(''__cli_output__'', PStr '' ready '')]), w)) [] [] world0
     = (Inr PNone, world0\<lparr>trace := [Echo (PStr ''Checking''), Echo (PStr '' ready '')]\<rparr>)"
proof -
  have pre: "emit_message example_env (Template ''Checking'') [] world0
               = Inr (echo (PStr ''Checking'') world0)"
    by (simp add: emit_message_def render_def example_env_def example_format_def
                  str_strip_def isspace_def)
  have "format_output example_env (Template ''Checking'') (Template ''{missing}'')
       (\<lambda>args kw w. (Inr (PObj [(''__cli_output__'', PStr '' ready '')]), w)) [] [] world0
     = (Inr PNone, echo (getattr (PObj [(''__cli_output__'', PStr '' ready '')]) ''__cli_output__'')
                     (echo (PStr ''Checking'') world0))"
    by (rule format_output_cli_output [OF pre]) simp_all
  then show ?thesis
    by (simp add: echo_def world0_def)
qed

text \<open>
  C6 as stated fails where the post-message format is a callable: the result below
  has the display string \<^verbatim>\<open>ready\<close>, and what is echoed is the callable's message.
\<close>

theorem format_output_callable_counterexample:
  "format_output example_env (Template '''') (Fn (\<lambda>kw. Inr ''computed''))
       (\<lambda>args kw w. (Inr (PObj [(''__cli_output__'', PStr ''ready'')]), w)) [] [] world0
     = (Inr PNone, world0\<lparr>trace := [Echo (PStr ''computed'')]\<rparr>)
   \<and> getattr (PObj [(''__cli_output__'', PStr ''ready'')]) ''__cli_output__'' = PStr ''ready''
   \<and> Echo (PStr ''ready'') \<notin> set [Echo (PStr ''computed'')]"
  by (simp add: format_output_def emit_message_def render_def echo_def world0_def
                str_strip_def isspace_def)

text \<open>
  C7. Under the JSON strategy, a wrapped callable that raises \<^verbatim>\<open>DeviceError\<close> with a
  payload as first argument, the payload having a JSON form \<open>s\<close>, makes the wrapper
  echo exactly \<open>s\<close> and end normally: the exception goes no further.
\<close>

theorem json_output_device_error:
  assumes "f args kw w = (Inl (DeviceError (payload # rest)), w1)"
      and "json_dumps E (if pretty then Some 2 else None) payload = Inr s"
  shows "json_output E pretty f args kw w = (Inr PNone, echo (PStr s) w1)"
  using assms unfolding json_output_def by (simp add: Let_def)

theorem json_output_device_error_witness:
  \<open>json_output example_env False
      (\<lambda>args kw w. (Inl (DeviceError [PDict [(''code'', PInt 7)]]), w)) [] [] world0
    = (Inr PNone, world0\<lparr>trace := [Echo (PStr ''{"code": 7}'')]\<rparr>)
   \<and> json_output example_env True
      (\<lambda>args kw w. (Inl (DeviceError [PDict [(''code'', PInt 7)]]), w)) [] [] world0
    = (Inr PNone,
       world0\<lparr>trace := [Echo (PStr (''{'' @ [CHR 0x0A] @ ''  "code": 7'' @ [CHR 0x0A] @ ''}''))]\<rparr>)\<close>
proof -
  have a: \<open>json_dumps example_env (if False then Some 2 else None) (PDict [(''code'', PInt 7)])
             = Inr ''{"code": 7}''\<close>
    using dumps_code7 by (simp add: example_env_def)
  have b: \<open>json_dumps example_env (if True then Some 2 else None) (PDict [(''code'', PInt 7)])
             = Inr (''{'' @ [CHR 0x0A] @ ''  "code": 7'' @ [CHR 0x0A] @ ''}'')\<close>
    using dumps_code7_pretty by (simp add: example_env_def)
  let ?f = "\<lambda>args kw w. (Inl (DeviceError [PDict [(''code'', PInt 7)]]), w) :: (exn + pyval) \<times> world"
  have c: "?f [] [] world0 = (Inl (DeviceError (PDict [(''code'', PInt 7)] # [])), world0)"
    by simp
  show ?thesis
    using json_output_device_error [of ?f "[]" "[]" world0, OF c a]
          json_output_device_error [of ?f "[]" "[]" world0, OF c b]
    by (simp add: echo_def world0_def)
qed

text \<open>
  C10. Whatever the wrapped callable returns, the wrapper built by either output
  strategy returns nothing but \<^verbatim>\<open>None\<close>: every normal return of the wrapper has the
  value \<^verbatim>\<open>None\<close>, the value of the callable having gone to \<^verbatim>\<open>echo\<close> only.
\<close>

theorem wrappers_return_None:
  "(\<forall>v. fst (format_output E msg_fmt result_msg_fmt f args kw w) = Inr v \<longrightarrow> v = PNone)
   \<and> (\<forall>v. fst (json_output E pretty f args kw w) = Inr v \<longrightarrow> v = PNone)"
proof (intro conjI allI impI)
  fix v
  assume "fst (format_output E msg_fmt result_msg_fmt f args kw w) = Inr v"
  then show "v = PNone"
    unfolding format_output_def
    by (simp add: Let_def split: sum.splits prod.splits if_splits)
next
  fix v
  assume "fst (json_output E pretty f args kw w) = Inr v"
  then show "v = PNone"
    unfolding json_output_def
    by (simp add: Let_def split: sum.splits prod.splits exn.splits list.splits if_splits)
qed

theorem wrappers_return_None_witness:
  "format_output example_env (Template '''') (Template ''{result}'')
       (\<lambda>args kw w. (Inr (PInt 42), w)) [] [] world0
     = (Inr PNone, world0\<lparr>trace := [Echo (PStr ''42'')]\<rparr>)
   \<and> json_output example_env False (\<lambda>args kw w. (Inr (PInt 42), w)) [] [] world0
     = (Inr PNone, world0\<lparr>trace := [Echo (PStr ''42'')]\<rparr>)"
proof -
  let ?f = "\<lambda>args kw w. (Inr (PInt 42), w) :: (exn + pyval) \<times> world"
  have enc: "py_json_dumps None (PInt 42) = Inr ''42''"
    by (simp add: py_json_dumps_def str_of_int_42)
  obtain v1 where v1: "format_output example_env (Template '''') (Template ''{result}'') ?f [] [] world0
                        = (Inr v1, world0\<lparr>trace := [Echo (PStr ''42'')]\<rparr>)"
    by (simp add: format_output_def emit_message_def render_def example_env_def
                  example_format_def str_of_int_42 str_strip_def isspace_def echo_def world0_def)
  obtain v2 where v2: "json_output example_env False ?f [] [] world0
                        = (Inr v2, world0\<lparr>trace := [Echo (PStr ''42'')]\<rparr>)"
    by (simp add: json_output_def example_env_def enc echo_def world0_def)
  have "v1 = PNone"
    using wrappers_return_None [of example_env "Template ''''" "Template ''{result}''" ?f "[]" "[]" world0]
          v1 by simp
  moreover have "v2 = PNone"
    using wrappers_return_None [of example_env _ _ ?f "[]" "[]" world0 False] v2 by simp
  ultimately show ?thesis
    using v1 v2 by simp
qed

subsection \<open>Command resolution\<close>

lemma fold_apply_rev:
  "fold (\<lambda>decorator g. decorator g) (rev ds) x = foldr (\<lambda>decorator g. decorator g) ds x"
  by (simp add: foldr_conv_fold)

lemma Command_wrap_callback:
  "callback (fst (Command_wrap E cmd ctx f w))
     = fold (\<lambda>decorator g. decorator g) (decorators cmd) (select_output E cmd ctx f)"
  by (simp add: Command_wrap_def click_command_def Let_def)

lemma device_pass_command_callback:
  assumes "find_device ctx = Some self"
      and "getattr_owner E self (fn_name (func cmd)) = Some m"
  shows "device_pass ctx (command_callback E cmd) = m self"
  using assms
  by (intro ext) (simp add: device_pass_def command_callback_def Command_call_method_def)

lemma status_group_commands: "commands status_group = [(''status'', status_cmd)]"
  by (simp add: status_group_def class_commands_def StatusDevice_def DeviceGroupMeta_new_def
                get_commands_for_namespace_def dict_update_def command_name_status Let_def)

lemma status_run_eq:
  "status_run =
     (Inr PNone,
      \<lparr>devices = (\<lambda>a. \<lparr>model = None, info = None\<rparr>)
                   (0 := \<lparr>model = Some (PStr ''demo.device.v1''), info = Some (PDict [])\<rparr>),
       dicts = (\<lambda>a. if a = 0 then [(''help'', PStr ''Show the status.'')] else []),
       trace = [Echo (PStr ''d1''), Echo (PStr ''d2''), Echo (PStr ''Running command status''),
                Debug ''Unknown model, trying autodetection'', FetchInfo 0,
                Echo (PStr ''42'')]\<rparr>)"
  unfolding status_run_def status_resolved_def get_command_def status_group_commands
  by (simp add: Command_wrap_def select_output_def click_command_def command_name_status
                status_cmd_fields world1_eq world0_def dict_pop_def example_ctx_def
                device_pass_def command_callback_def Command_call_method_def example_env_def
                Status_fields autodetect_model_if_needed_def call_fetch_info_def example_fetch_def
                log_debug_def echo_def announce_def format_output_def emit_message_def
                render_def example_format_def str_of_int_42 str_strip_def isspace_def
                Let_def fun_eq_iff)

text \<open>
  C5. The output strategy chosen at command resolution is the override of the
  \<^verbatim>\<open>GlobalContextObject\<close> found in the context when there is one; else the default of
  the descriptor when there is one; else the text strategy whose pre-message is
  \<^verbatim>\<open>Running command\<close> followed by the command name. The resolved callback is the
  stored decorators applied to the chosen strategy around the function.
\<close>

theorem select_output_precedence:
  "(find_gco ctx = Some g \<and> gco_output g = Some out \<longrightarrow> select_output E cmd ctx = out)
   \<and> ((find_gco ctx = None \<or> (find_gco ctx = Some g \<and> gco_output g = None))
          \<and> default_output cmd = Some dflt
        \<longrightarrow> select_output E cmd ctx = dflt)
   \<and> ((find_gco ctx = None \<or> (find_gco ctx = Some g \<and> gco_output g = None))
          \<and> default_output cmd = None
        \<longrightarrow> select_output E cmd ctx
              = format_output E (Template (''Running command '' @ command_name cmd))
                  (Template ''{result}''))
   \<and> callback (fst (Command_wrap E cmd ctx f w))
       = fold (\<lambda>decorator h. decorator h) (decorators cmd) (select_output E cmd ctx f)"
  by (auto simp add: select_output_def Command_wrap_callback)

theorem select_output_precedence_witness:
  "select_output example_env (status_cmd\<lparr>default_output := Some (announce ''default'')\<rparr>)
       \<lparr>find_gco = Some \<lparr>debug = 0, gco_output = Some (announce ''override'')\<rparr>,
        find_device = Some 0\<rparr>
     = announce ''override''
   \<and> select_output example_env (status_cmd\<lparr>default_output := Some (announce ''default'')\<rparr>)
       \<lparr>find_gco = Some \<lparr>debug = 0, gco_output = None\<rparr>, find_device = Some 0\<rparr>
     = announce ''default''
   \<and> select_output example_env status_cmd example_ctx
     = format_output example_env (Template ''Running command status'') (Template ''{result}'')"
proof -
  let ?cmd = "status_cmd\<lparr>default_output := Some (announce ''default'')\<rparr>"
  let ?g1 = "\<lparr>debug = 0, gco_output = Some (announce ''override'')\<rparr>"
  let ?g2 = "\<lparr>debug = 0, gco_output = None :: decorator option\<rparr>"
  show ?thesis
    using select_output_precedence
            [of "\<lparr>find_gco = Some ?g1, find_device = Some 0\<rparr>" ?g1 "announce ''override''"
                example_env ?cmd]
          select_output_precedence
            [of "\<lparr>find_gco = Some ?g2, find_device = Some 0\<rparr>" ?g2 _ example_env ?cmd
                "announce ''default''"]
          select_output_precedence [of example_ctx _ _ example_env status_cmd]
    by (simp add: example_ctx_def status_cmd_fields command_name_status)
qed

lemma override_run_eq:
  "override_run =
     (Inr PNone,
      \<lparr>devices = (\<lambda>a. \<lparr>model = None, info = None\<rparr>),
       dicts = (\<lambda>a. if a = 0 then [(''help'', PStr ''Show the status.'')] else []),
       trace = [Echo (PStr ''d1''), Echo (PStr ''d2''), Echo (PStr ''Running command status''),
                Echo (PStr ''override''), Echo (PStr ''overridden'')]\<rparr>)"
  unfolding override_run_def get_command_def status_group_commands
  by (simp add: Command_wrap_def select_output_def click_command_def command_name_status
                status_cmd_fields world1_eq world0_def dict_pop_def example_ctx_def
                device_pass_def command_callback_def Command_call_method_def override_env_def
                Status_fields echo_def announce_def format_output_def emit_message_def
                render_def example_format_def str_strip_def isspace_def
                Let_def fun_eq_iff)

text \<open>
  C1, as the code has it. \<^verbatim>\<open>__init__\<close> stores the decorators reversed and \<^verbatim>\<open>wrap\<close>
  applies the stored list front to back, so for a descriptor declared with
  \<^verbatim>\<open>[d1, d2]\<close> the resolved callback has \<open>d1\<close>, the first declared, as its outermost
  wrapper: a call runs \<open>d1\<close>, then \<open>d2\<close>, then the output strategy, then the
  function that the attribute lookup \<^verbatim>\<open>getattr(owner, func.__name__)\<close> finds on the
  device instance of the context. Where that lookup finds what \<^verbatim>\<open>__call__\<close> returned
  for the descriptor, this function is the autodetect guard around the function of
  the descriptor; where it finds another function \<open>m\<close>, as with an override in the
  class of the instance, it is \<open>m\<close>.
\<close>

theorem decorators_first_declared_outermost:
  assumes "Command_call fetch_info (command [d1, d2] nm dflt kw) f w0 = ((cmd, guarded), w1)"
      and "map_of (commands grp) n = Some cmd"
  shows "\<exists>c w'. get_command E grp ctx n w = (Inr c, w')
           \<and> callback c
               = d1 (d2 (select_output E cmd ctx (device_pass ctx (command_callback E cmd))))
           \<and> (\<forall>self m. find_device ctx = Some self
                  \<and> getattr_owner E self (fn_name f) = Some m
                \<longrightarrow> device_pass ctx (command_callback E cmd) = m self)
           \<and> (\<forall>self. find_device ctx = Some self
                  \<and> getattr_owner E self (fn_name f) = Some guarded
                \<longrightarrow> callback c
                    = d1 (d2 (select_output E cmd ctx
                                (autodetect_model_if_needed fetch_info cmd self))))
           \<and> guarded = autodetect_model_if_needed fetch_info cmd
           \<and> func cmd = f"
proof -
  from assms(1) have cmd: "decorators cmd = rev [d1, d2]" "func cmd = f"
    and g: "guarded = autodetect_model_if_needed fetch_info cmd"
    by (auto simp add: Command_call_def command_def Command_init_def Let_def)
  let ?inner = "device_pass ctx (command_callback E cmd)"
  let ?c = "fst (Command_wrap E cmd ctx ?inner w)"
  have resolved: "get_command E grp ctx n w = (Inr ?c, snd (Command_wrap E cmd ctx ?inner w))"
    using assms(2) by (simp add: get_command_def Let_def)
  have nest: "callback ?c = d1 (d2 (select_output E cmd ctx ?inner))"
    unfolding Command_wrap_callback cmd(1) fold_apply_rev by simp
  have lookup: "?inner = m self"
    if "find_device ctx = Some self" "getattr_owner E self (fn_name f) = Some m" for self m
    using device_pass_command_callback [of ctx self E cmd m] that cmd(2) by simp
  have guard: "callback ?c
                 = d1 (d2 (select_output E cmd ctx (autodetect_model_if_needed fetch_info cmd self)))"
    if "find_device ctx = Some self" "getattr_owner E self (fn_name f) = Some guarded" for self
    using nest lookup [OF that] g by simp
  from resolved nest lookup guard g cmd(2) show ?thesis
    by blast
qed

theorem decorators_first_declared_outermost_witness:
  "\<exists>c w'. get_command example_env status_group example_ctx ''status'' world1 = (Inr c, w')
     \<and> callback c
         = announce ''d1'' (announce ''d2''
             (select_output example_env status_cmd example_ctx
                (autodetect_model_if_needed example_fetch status_cmd 0)))
     \<and> func status_cmd = Status"
proof -
  have a: "Command_call example_fetch
             (command [announce ''d1'', announce ''d2''] None None 0) Status world0
           = ((status_cmd, autodetect_model_if_needed example_fetch status_cmd), world1)"
    by (simp add: status_cmd_def world1_def Command_call_def Let_def)
  have b: "map_of (commands status_group) ''status'' = Some status_cmd"
    by (simp add: status_group_commands)
  have c: "find_device example_ctx = Some 0"
    by (simp add: example_ctx_def)
  have d: "getattr_owner example_env 0 (fn_name Status)
             = Some (autodetect_model_if_needed example_fetch status_cmd)"
    by (simp add: example_env_def Status_fields)
  from decorators_first_declared_outermost [OF a b, of example_env example_ctx world1] c d
  show ?thesis
    by blast
qed

text \<open>
  C1 as stated fails twice. The command declared with \<^verbatim>\<open>[d1, d2]\<close>, resolved through
  its group and called once, runs \<open>d1\<close> before \<open>d2\<close>. And where the class of the device
  instance overrides the function, the same call runs the override after the output
  strategy: neither the guard nor the function of the descriptor runs.
\<close>

theorem decorators_last_declared_counterexample:
  "decorators (command [announce ''d1'', announce ''d2''] None None 0)
     = [announce ''d2'', announce ''d1'']
   \<and> trace (snd status_run)
     = [Echo (PStr ''d1''), Echo (PStr ''d2''), Echo (PStr ''Running command status''),
        Debug ''Unknown model, trying autodetection'', FetchInfo 0, Echo (PStr ''42'')]
   \<and> trace (snd status_run)
     \<noteq> [Echo (PStr ''d2''), Echo (PStr ''d1''), Echo (PStr ''Running command status''),
        Debug ''Unknown model, trying autodetection'', FetchInfo 0, Echo (PStr ''42'')]
   \<and> trace (snd override_run)
     = [Echo (PStr ''d1''), Echo (PStr ''d2''), Echo (PStr ''Running command status''),
        Echo (PStr ''override''), Echo (PStr ''overridden'')]"
  by (simp add: status_run_eq override_run_eq command_def Command_init_def)

text \<open>
  C2 fails on the code. The descriptor of \<^verbatim>\<open>Status\<close> is declared with
  \<^verbatim>\<open>skip_autodetect=True\<close> and the option is in its dictionary when the command is
  resolved; resolution removes it, the guard then reads the default \<^verbatim>\<open>False\<close>, and
  the first call on a device with empty caches calls \<^verbatim>\<open>_fetch_info\<close>.
\<close>

theorem skip_autodetect_lost_by_resolution:
  "map_of (dicts world1 (kwargs status_cmd)) ''skip_autodetect'' = Some (PBool True)
   \<and> model (devices world1 0) = None \<and> info (devices world1 0) = None
   \<and> map_of (dicts (snd status_resolved) (kwargs status_cmd)) ''skip_autodetect'' = None
   \<and> FetchInfo 0 \<in> set (trace (snd status_run))"
  by (simp add: status_run_eq world1_eq world0_def status_cmd_fields status_resolved_def
                get_command_def status_group_commands Command_wrap_def dict_pop_def Let_def)

lemma guard_honours_option_when_present:
  assumes "map_of (dicts w (kwargs cmd)) ''skip_autodetect'' = Some v" and "truthy v"
  shows "autodetect_model_if_needed fetch_info cmd self args kw w
           = fn_body (func cmd) self args kw
               (w\<lparr>dicts := (dicts w)(kwargs cmd :=
                    AList.delete ''skip_autodetect'' (dicts w (kwargs cmd)))\<rparr>)"
  using assms by (simp add: autodetect_model_if_needed_def dict_pop_def Let_def)

text \<open>
  C3. In one call the guard calls \<^verbatim>\<open>_fetch_info\<close> at most once, before the function of
  the descriptor runs. In a world where the cached model or the cached info of the
  device is present, as after a first call that filled either, the guard of a
  following call on the same device calls nothing: the function runs in a world with
  the same trace and the same devices.
\<close>

theorem autodetect_at_most_once:
  "(\<exists>w'. (autodetect_model_if_needed fetch_info cmd self args kw w
              = fn_body (func cmd) self args kw w'
            \<or> (\<exists>e. autodetect_model_if_needed fetch_info cmd self args kw w = (Inl e, w')))
          \<and> (trace w' = trace w
              \<or> trace w' = trace w @ [Debug ''Unknown model, trying autodetection'',
                                        FetchInfo self]))
   \<and> (model (devices w self) \<noteq> None \<or> info (devices w self) \<noteq> None
        \<longrightarrow> (\<exists>w'. autodetect_model_if_needed fetch_info cmd self args kw w
                      = fn_body (func cmd) self args kw w'
                    \<and> trace w' = trace w \<and> devices w' = devices w))"
proof (intro conjI impI)
  let ?p = "dict_pop (kwargs cmd) ''skip_autodetect'' (PBool False) w"
  have pop: "trace (snd ?p) = trace w" "devices (snd ?p) = devices w"
    by (simp_all add: dict_pop_def split: option.splits)
  show "\<exists>w'. (autodetect_model_if_needed fetch_info cmd self args kw w
                = fn_body (func cmd) self args kw w'
              \<or> (\<exists>e. autodetect_model_if_needed fetch_info cmd self args kw w = (Inl e, w')))
            \<and> (trace w' = trace w
                \<or> trace w' = trace w @ [Debug ''Unknown model, trying autodetection'',
                                          FetchInfo self])"
  proof (cases "\<not> truthy (fst ?p) \<and> model (devices (snd ?p) self) = None
                  \<and> info (devices (snd ?p) self) = None")
    case False
    then have "autodetect_model_if_needed fetch_info cmd self args kw w
                 = fn_body (func cmd) self args kw (snd ?p)"
      by (auto simp add: autodetect_model_if_needed_def Let_def)
    with pop show ?thesis by blast
  next
    case True
    let ?r = "call_fetch_info fetch_info self
                (log_debug ''Unknown model, trying autodetection'' (snd ?p))"
    have tr: "trace (snd ?r) = trace w @ [Debug ''Unknown model, trying autodetection'',
                                           FetchInfo self]"
      using pop by (simp add: call_fetch_info_def log_debug_def Let_def split: option.splits)
    have "autodetect_model_if_needed fetch_info cmd self args kw w
            = fn_body (func cmd) self args kw (snd ?r)
          \<or> (\<exists>e. autodetect_model_if_needed fetch_info cmd self args kw w = (Inl e, snd ?r))"
      using True
      by (cases ?r) (auto simp add: autodetect_model_if_needed_def Let_def split: sum.splits)
    with tr show ?thesis by blast
  qed
next
  let ?p = "dict_pop (kwargs cmd) ''skip_autodetect'' (PBool False) w"
  assume cached: "model (devices w self) \<noteq> None \<or> info (devices w self) \<noteq> None"
  have pop: "trace (snd ?p) = trace w" "devices (snd ?p) = devices w"
    by (simp_all add: dict_pop_def split: option.splits)
  have "autodetect_model_if_needed fetch_info cmd self args kw w
          = fn_body (func cmd) self args kw (snd ?p)"
    using cached pop by (auto simp add: autodetect_model_if_needed_def Let_def)
  with pop show "\<exists>w'. autodetect_model_if_needed fetch_info cmd self args kw w
                        = fn_body (func cmd) self args kw w'
                      \<and> trace w' = trace w \<and> devices w' = devices w"
    by blast
qed

theorem autodetect_at_most_once_witness:
  "trace (snd (autodetect_model_if_needed example_fetch status_cmd 0 [] []
                 (snd (autodetect_model_if_needed example_fetch status_cmd 0 [] []
                         (snd status_resolved)))))
     = [Debug ''Unknown model, trying autodetection'', FetchInfo 0]"
proof -
  let ?w0 = "snd status_resolved"
  let ?w1 = "snd (autodetect_model_if_needed example_fetch status_cmd 0 [] [] ?w0)"
  have w0: "trace ?w0 = []" "devices ?w0 = (\<lambda>a. \<lparr>model = None, info = None\<rparr>)"
    "map_of (dicts ?w0 0) ''skip_autodetect'' = None"
    by (simp_all add: status_resolved_def get_command_def status_group_commands Command_wrap_def
                      dict_pop_def world1_eq world0_def status_cmd_fields Let_def)
  have first: "trace ?w1 = [Debug ''Unknown model, trying autodetection'', FetchInfo 0]"
    "model (devices ?w1 0) = Some (PStr ''demo.device.v1'')"
    by (simp_all add: autodetect_model_if_needed_def dict_pop_def status_cmd_fields w0
                      call_fetch_info_def log_debug_def example_fetch_def Status_fields Let_def)
  have "model (devices ?w1 0) \<noteq> None \<or> info (devices ?w1 0) \<noteq> None"
    using first(2) by simp
  with autodetect_at_most_once [of example_fetch status_cmd 0 "[]" "[]" ?w1]
  obtain w' where "autodetect_model_if_needed example_fetch status_cmd 0 [] [] ?w1
                     = fn_body (func status_cmd) 0 [] [] w'"
              and "trace w' = trace ?w1"
    by blast
  then show ?thesis
    using first(1) by (simp add: status_cmd_fields Status_fields)
qed

subsection \<open>The registry\<close>

lemma set_AList_update: "set (AList.update k v al) \<subseteq> insert (k, v) (set al)"
  by (induction al) auto

lemma dict_update_snoc:
  "dict_update d (xs @ [kv]) = AList.update (fst kv) (snd kv) (dict_update d xs)"
  by (simp add: dict_update_def)

lemma dict_update_Nil: "dict_update d [] = d"
  by (simp add: dict_update_def)

lemma keys_dict_update: "fst ` set (dict_update d other) = fst ` set d \<union> fst ` set other"
proof (induction other rule: rev_induct)
  case Nil
  show ?case by (simp add: dict_update_Nil)
next
  case (snoc kv xs)
  then show ?case
    by (auto simp add: dict_update_snoc AList.dom_update)
qed

lemma distinct_dict_update:
  "distinct (map fst d) \<Longrightarrow> distinct (map fst (dict_update d other))"
  by (induction other rule: rev_induct)
     (simp_all add: dict_update_Nil dict_update_snoc AList.distinct_update)

lemma set_dict_update: "set (dict_update d other) \<subseteq> set d \<union> set other"
proof (induction other rule: rev_induct)
  case Nil
  show ?case by (simp add: dict_update_Nil)
next
  case (snoc kv xs)
  have "set (dict_update d (xs @ [kv])) \<subseteq> insert kv (set (dict_update d xs))"
    using set_AList_update [of "fst kv" "snd kv" "dict_update d xs"]
    by (simp add: dict_update_snoc)
  with snoc show ?case by auto
qed

lemma map_of_dict_update_other:
  assumes "distinct (map fst other)" and "(n, e) \<in> set other"
  shows "map_of (dict_update d other) n = Some e"
  using assms
proof (induction other rule: rev_induct)
  case Nil
  then show ?case by simp
next
  case (snoc kv xs)
  show ?case
  proof (cases "(n, e) = kv")
    case True
    then show ?thesis
      by (auto simp add: dict_update_snoc AList.update_conv')
  next
    case False
    with snoc.prems have mem: "(n, e) \<in> set xs" by simp
    then have "n \<in> fst ` set xs" by force
    moreover from snoc.prems(1) have "fst kv \<notin> fst ` set xs" by simp
    ultimately have "n \<noteq> fst kv" by blast
    moreover have "map_of (dict_update d xs) n = Some e"
      using snoc.IH snoc.prems(1) mem by simp
    ultimately show ?thesis
      by (simp add: dict_update_snoc AList.update_conv')
  qed
qed

lemma distinct_get_commands: "distinct (map fst (get_commands_for_namespace ns))"
  unfolding get_commands_for_namespace_def
  by (rule fold_invariant [where Q = "\<lambda>x. True"])
     (simp_all add: AList.distinct_update split: option.splits)

lemma get_commands_snoc:
  "get_commands_for_namespace (ns @ [item])
     = (if \<not> is_callable (snd item) then get_commands_for_namespace ns
        else (case device_group_command (snd item) of
                None \<Rightarrow> get_commands_for_namespace ns
              | Some c \<Rightarrow> AList.update (command_name c) c (get_commands_for_namespace ns)))"
  by (simp add: get_commands_for_namespace_def split: option.splits)

lemma get_commands_Nil: "get_commands_for_namespace [] = []"
  by (simp add: get_commands_for_namespace_def)

text \<open>The scan of a namespace yields only what the namespace tags.\<close>

lemma scan_sound:
  "(n, e) \<in> set (get_commands_for_namespace ns)
     \<Longrightarrow> (\<exists>item \<in> set ns. is_callable (snd item) \<and> device_group_command (snd item) = Some e)
         \<and> command_name e = n"
proof (induction ns arbitrary: n e rule: rev_induct)
  case Nil
  then show ?case by (simp add: get_commands_Nil)
next
  case (snoc item ns)
  show ?case
  proof (cases "is_callable (snd item) \<and> device_group_command (snd item) \<noteq> None")
    case False
    then have "get_commands_for_namespace (ns @ [item]) = get_commands_for_namespace ns"
      by (auto simp add: get_commands_snoc)
    with snoc show ?thesis by auto
  next
    case True
    then obtain c where c: "is_callable (snd item)" "device_group_command (snd item) = Some c"
      by auto
    then have "set (get_commands_for_namespace (ns @ [item]))
                 \<subseteq> insert (command_name c, c) (set (get_commands_for_namespace ns))"
      using set_AList_update [of "command_name c" c "get_commands_for_namespace ns"]
      by (simp add: get_commands_snoc)
    with snoc.prems consider "(n, e) = (command_name c, c)"
      | "(n, e) \<in> set (get_commands_for_namespace ns)"
      by auto
    then show ?thesis
    proof cases
      case 1
      with c show ?thesis by auto
    next
      case 2
      with snoc.IH show ?thesis by auto
    qed
  qed
qed

text \<open>The scan of a namespace yields a key for every command the namespace tags.\<close>

lemma scan_complete:
  "item \<in> set ns \<Longrightarrow> is_callable (snd item) \<Longrightarrow> device_group_command (snd item) = Some e
     \<Longrightarrow> command_name e \<in> fst ` set (get_commands_for_namespace ns)"
proof (induction ns rule: rev_induct)
  case Nil
  then show ?case by simp
next
  case (snoc x ns)
  show ?case
  proof (cases "item = x")
    case True
    with snoc.prems show ?thesis
      by (simp add: get_commands_snoc AList.dom_update)
  next
    case False
    with snoc have "command_name e \<in> fst ` set (get_commands_for_namespace ns)"
      by simp
    then show ?thesis
      by (auto simp add: get_commands_snoc AList.dom_update split: option.splits)
  qed
qed

lemma class_commands_new:
  "class_commands (DeviceGroupMeta_new nm bs ns)
     = dict_update (fold (\<lambda>base cs. dict_update cs (class_commands base)) bs [])
         (get_commands_for_namespace ns)"
  by (simp add: DeviceGroupMeta_new_def class_commands_def Let_def)

lemma ancestors_new:
  "ancestors (DeviceGroupMeta_new nm bs ns) = (\<Union>b \<in> set bs. insert b (ancestors b))"
  by (simp add: DeviceGroupMeta_new_def Let_def)

lemma is_device_type_new: "is_device_type (DeviceGroupMeta_new nm bs ns)"
  by (simp add: is_device_type_def DeviceGroupMeta_new_def Let_def)

lemma declares_new:
  "declares (DeviceGroupMeta_new nm bs ns) n e
     \<longleftrightarrow> (\<exists>item \<in> set ns. is_callable (snd item) \<and> device_group_command (snd item) = Some e)
         \<and> command_name e = n"
  by (auto simp add: declares_def DeviceGroupMeta_new_def Let_def)

lemma own_sound:
  "(n, e) \<in> set (get_commands_for_namespace ns) \<Longrightarrow> declares (DeviceGroupMeta_new nm bs ns) n e"
  unfolding declares_new by (rule scan_sound)

lemma own_complete:
  "declares (DeviceGroupMeta_new nm bs ns) n e \<Longrightarrow> n \<in> fst ` set (get_commands_for_namespace ns)"
  unfolding declares_new using scan_complete by blast

lemma keys_merged:
  "fst ` set (fold (\<lambda>base cs. dict_update cs (class_commands base)) bs acc)
     = fst ` set acc \<union> (\<Union>b \<in> set bs. fst ` set (class_commands b))"
  by (induction bs arbitrary: acc) (auto simp add: keys_dict_update)

lemma distinct_merged:
  "distinct (map fst acc)
     \<Longrightarrow> distinct (map fst (fold (\<lambda>base cs. dict_update cs (class_commands base)) bs acc))"
  by (induction bs arbitrary: acc) (simp_all add: distinct_dict_update)

lemma set_merged:
  "set (fold (\<lambda>base cs. dict_update cs (class_commands base)) bs acc)
     \<subseteq> set acc \<union> (\<Union>b \<in> set bs. set (class_commands b))"
proof (induction bs arbitrary: acc)
  case Nil
  show ?case by simp
next
  case (Cons b bs)
  have "set (fold (\<lambda>base cs. dict_update cs (class_commands base)) (b # bs) acc)
          \<subseteq> set (dict_update acc (class_commands b)) \<union> (\<Union>b \<in> set bs. set (class_commands b))"
    using Cons.IH [of "dict_update acc (class_commands b)"] by simp
  with set_dict_update [of acc "class_commands b"] show ?case by auto
qed

lemma distinct_class_commands_new:
  "distinct (map fst (class_commands (DeviceGroupMeta_new nm bs ns)))"
  by (simp add: class_commands_new distinct_dict_update distinct_merged)

lemma keys_class_commands_new:
  "fst ` set (class_commands (DeviceGroupMeta_new nm bs ns))
     = (\<Union>b \<in> set bs. fst ` set (class_commands b))
       \<union> fst ` set (get_commands_for_namespace ns)"
  by (simp add: class_commands_new keys_dict_update keys_merged)

lemma distinct_class_commands:
  "class_defined c \<Longrightarrow> distinct (map fst (class_commands c))"
proof (induction rule: class_defined.induct)
  case (plain bases nm namespace)
  show ?case by (simp add: class_commands_def)
next
  case (device_type bases nm namespace)
  show ?case by (rule distinct_class_commands_new)
qed

lemma own_command_wins:
  assumes "declares (DeviceGroupMeta_new nm bs ns) n d"
  shows "\<exists>d'. map_of (class_commands (DeviceGroupMeta_new nm bs ns)) n = Some d'
              \<and> declares (DeviceGroupMeta_new nm bs ns) n d'"
proof -
  from own_complete [OF assms] obtain d'
    where d': "(n, d') \<in> set (get_commands_for_namespace ns)"
    by force
  then have "map_of (class_commands (DeviceGroupMeta_new nm bs ns)) n = Some d'"
    unfolding class_commands_new
    by (rule map_of_dict_update_other [OF distinct_get_commands])
  with own_sound [OF d'] show ?thesis by blast
qed

text \<open>
  Every entry of a registry is a declaration of the class or of an ancestor, the
  declaring class being a device type.
\<close>

lemma registry_provenance:
  "class_defined c
     \<Longrightarrow> \<forall>n e. (n, e) \<in> set (class_commands c)
              \<longrightarrow> (\<exists>A \<in> insert c (ancestors c). is_device_type A \<and> declares A n e)"
proof (induction rule: class_defined.induct)
  case (plain bases nm namespace)
  show ?case by (simp add: class_commands_def)
next
  case (device_type bases nm namespace)
  let ?D = "DeviceGroupMeta_new nm bases namespace"
  show ?case
  proof (intro allI impI)
    fix n e
    assume "(n, e) \<in> set (class_commands ?D)"
    then consider
        (own) "(n, e) \<in> set (get_commands_for_namespace namespace)"
      | (base) b where "b \<in> set bases" "(n, e) \<in> set (class_commands b)"
      using set_dict_update set_merged [of bases "[]"]
      unfolding class_commands_new by fastforce
    then show "\<exists>A \<in> insert ?D (ancestors ?D). is_device_type A \<and> declares A n e"
    proof cases
      case own
      then have "declares ?D n e" by (rule own_sound)
      then show ?thesis using is_device_type_new by blast
    next
      case base
      with device_type.IH obtain A
        where "A \<in> insert b (ancestors b)" "is_device_type A" "declares A n e"
        by blast
      with base(1) have "A \<in> ancestors ?D"
        unfolding ancestors_new by blast
      with \<open>declares A n e\<close> \<open>is_device_type A\<close> show ?thesis by blast
    qed
  qed
qed

text \<open>
  Every name declared by the class or by an ancestor, the declaring class being a
  device type, is a key of the registry.
\<close>

lemma registry_coverage:
  "class_defined c
     \<Longrightarrow> \<forall>A n e. A \<in> insert c (ancestors c) \<and> is_device_type A \<and> declares A n e
              \<longrightarrow> n \<in> fst ` set (class_commands c)"
proof (induction rule: class_defined.induct)
  case (plain bases nm namespace)
  show ?case
  proof (intro allI impI)
    fix A n e
    assume h: "A \<in> insert (Cls nm bases namespace None) (ancestors (Cls nm bases namespace None))
               \<and> is_device_type A \<and> declares A n e"
    have "A \<noteq> Cls nm bases namespace None"
      using h by (auto simp add: is_device_type_def)
    with h obtain b where b: "b \<in> set bases" "A \<in> insert b (ancestors b)"
      by auto
    with plain h have "n \<in> fst ` set (class_commands b)" by blast
    moreover have "class_commands b = []"
      using plain b(1) by (simp add: class_commands_def)
    ultimately show "n \<in> fst ` set (class_commands (Cls nm bases namespace None))"
      by simp
  qed
next
  case (device_type bases nm namespace)
  let ?D = "DeviceGroupMeta_new nm bases namespace"
  show ?case
  proof (intro allI impI)
    fix A n e
    assume h: "A \<in> insert ?D (ancestors ?D) \<and> is_device_type A \<and> declares A n e"
    show "n \<in> fst ` set (class_commands ?D)"
    proof (cases "A = ?D")
      case True
      with h have "n \<in> fst ` set (get_commands_for_namespace namespace)"
        using own_complete by blast
      then show ?thesis by (simp add: keys_class_commands_new)
    next
      case False
      with h obtain b where b: "b \<in> set bases" "A \<in> insert b (ancestors b)"
        unfolding ancestors_new by auto
      with device_type.IH h have "n \<in> fst ` set (class_commands b)" by blast
      with b(1) show ?thesis by (auto simp add: keys_class_commands_new)
    qed
  qed
qed

text \<open>
  A name that the class does not declare is held with the descriptor on which the
  registries of the bases that hold the name agree.
\<close>

lemma inherited_command:
  assumes bases: "\<forall>b \<in> set bs. class_defined b"
      and undeclared: "\<not> (\<exists>d. declares (DeviceGroupMeta_new nm bs ns) n d)"
      and b: "b \<in> set bs" "map_of (class_commands b) n = Some e"
      and agree: "\<forall>b' \<in> set bs. \<forall>e'. map_of (class_commands b') n = Some e' \<longrightarrow> e' = e"
  shows "map_of (class_commands (DeviceGroupMeta_new nm bs ns)) n = Some e"
proof -
  let ?D = "DeviceGroupMeta_new nm bs ns"
  from b have "n \<in> fst ` set (class_commands b)"
    by (force dest: map_of_SomeD)
  with b(1) have "n \<in> fst ` set (class_commands ?D)"
    by (auto simp add: keys_class_commands_new)
  then obtain e' where e': "(n, e') \<in> set (class_commands ?D)"
    by force
  then consider
      (own) "(n, e') \<in> set (get_commands_for_namespace ns)"
    | (base) b' where "b' \<in> set bs" "(n, e') \<in> set (class_commands b')"
    using set_dict_update set_merged [of bs "[]"]
    unfolding class_commands_new by fastforce
  then have "e' = e"
  proof cases
    case own
    with undeclared own_sound show ?thesis by blast
  next
    case base
    with bases have "distinct (map fst (class_commands b'))"
      by (simp add: distinct_class_commands)
    with base(2) have "map_of (class_commands b') n = Some e'" by simp
    with agree base(1) show ?thesis by blast
  qed
  with e' show ?thesis
    by (simp add: distinct_class_commands_new)
qed

lemma class_defined_new:
  "\<forall>b \<in> set bs. class_defined b \<Longrightarrow> class_defined (DeviceGroupMeta_new nm bs ns)"
  by (rule class_defined.device_type)

lemma device_group_commands_new:
  "device_group_commands (DeviceGroupMeta_new nm bs ns)
     = Some (class_commands (DeviceGroupMeta_new nm bs ns))"
  by (simp add: DeviceGroupMeta_new_def class_commands_def Let_def)

lemma DeviceGroup_init_new:
  "DeviceGroup_init (DeviceGroupMeta_new nm bs ns)
     = Inr \<lparr>commands = class_commands (DeviceGroupMeta_new nm bs ns),
            device_class = DeviceGroupMeta_new nm bs ns\<rparr>"
  by (simp add: DeviceGroup_init_def device_group_commands_new)

lemma command_name_simple: "n \<noteq> [] \<Longrightarrow> command_name (simple_cmd n kw) = n"
  by (simp add: command_name_def simple_cmd_def)

lemma BaseDevice_own:
  "get_commands_for_namespace
     [(''retries'', NsVal False None),
      (''status'', NsVal True (Some (simple_cmd ''status'' 1))),
      (''reboot'', NsVal True (Some (simple_cmd ''reboot'' 2))),
      (''send'', NsVal True None)]
   = [(''status'', simple_cmd ''status'' 1), (''reboot'', simple_cmd ''reboot'' 2)]"
  by (simp add: get_commands_for_namespace_def command_name_simple)

lemma DerivedDevice_own:
  "get_commands_for_namespace
     [(''status'', NsVal True (Some (simple_cmd ''status'' 3))),
      (''info'', NsVal True (Some (simple_cmd ''info'' 4)))]
   = [(''status'', simple_cmd ''status'' 3), (''info'', simple_cmd ''info'' 4)]"
  by (simp add: get_commands_for_namespace_def command_name_simple)

lemma BaseDevice_commands:
  "class_commands BaseDevice
     = [(''status'', simple_cmd ''status'' 1), (''reboot'', simple_cmd ''reboot'' 2)]"
  unfolding BaseDevice_def class_commands_new BaseDevice_own
  by (simp add: dict_update_def)

lemma DerivedDevice_commands:
  "class_commands DerivedDevice
     = [(''status'', simple_cmd ''status'' 3), (''reboot'', simple_cmd ''reboot'' 2),
        (''info'', simple_cmd ''info'' 4)]"
  unfolding DerivedDevice_def class_commands_new DerivedDevice_own
  by (simp add: dict_update_def BaseDevice_commands)

lemma LeafDevice_commands:
  "class_commands LeafDevice
     = [(''status'', simple_cmd ''status'' 3), (''reboot'', simple_cmd ''reboot'' 2),
        (''info'', simple_cmd ''info'' 4), (''ping'', simple_cmd ''ping'' 5)]"
  unfolding LeafDevice_def class_commands_new
  by (simp add: dict_update_def DerivedDevice_commands get_commands_for_namespace_def
                command_name_simple)

lemma MixedDevice_commands:
  "class_commands MixedDevice = [(''status'', simple_cmd ''status'' 7)]"
proof -
  have "class_commands Mixin = []"
    by (simp add: class_commands_def Mixin_def)
  then show ?thesis
    unfolding MixedDevice_def class_commands_new
    by (simp add: dict_update_def get_commands_for_namespace_def command_name_simple)
qed

lemma JoinedDevice_commands:
  "class_commands JoinedDevice
     = [(''status'', simple_cmd ''status'' 1), (''reboot'', simple_cmd ''reboot'' 2),
        (''info'', simple_cmd ''info'' 4)]"
  unfolding JoinedDevice_def class_commands_new
  by (simp add: dict_update_def DerivedDevice_commands BaseDevice_commands
                get_commands_for_namespace_def)

lemma BaseDevice_defined: "class_defined BaseDevice"
  unfolding BaseDevice_def by (rule class_defined_new) simp

lemma DerivedDevice_defined: "class_defined DerivedDevice"
  unfolding DerivedDevice_def by (rule class_defined_new) (simp add: BaseDevice_defined)

lemma Mixin_defined: "class_defined Mixin"
  unfolding Mixin_def by (rule class_defined.plain) simp

lemma MixedDevice_defined: "class_defined MixedDevice"
  unfolding MixedDevice_def by (rule class_defined_new) (simp add: Mixin_defined)

lemma BaseDevice_declares:
  "declares BaseDevice n e
     \<longleftrightarrow> (n = ''status'' \<and> e = simple_cmd ''status'' 1)
         \<or> (n = ''reboot'' \<and> e = simple_cmd ''reboot'' 2)"
  unfolding BaseDevice_def declares_new by (auto simp add: command_name_simple)

lemma DerivedDevice_declares:
  "declares DerivedDevice n e
     \<longleftrightarrow> (n = ''status'' \<and> e = simple_cmd ''status'' 3)
         \<or> (n = ''info'' \<and> e = simple_cmd ''info'' 4)"
  unfolding DerivedDevice_def declares_new by (auto simp add: command_name_simple)

lemma LeafDevice_declares:
  "declares LeafDevice n e \<longleftrightarrow> n = ''ping'' \<and> e = simple_cmd ''ping'' 5"
  unfolding LeafDevice_def declares_new by (auto simp add: command_name_simple)

lemma Mixin_declares: "declares Mixin ''foo'' (simple_cmd ''foo'' 6)"
  by (simp add: declares_def Mixin_def command_name_simple)

lemma DerivedDevice_ancestors: "ancestors DerivedDevice = {BaseDevice}"
  by (simp add: DerivedDevice_def ancestors_new) (simp add: BaseDevice_def ancestors_new)

lemma LeafDevice_ancestors: "ancestors LeafDevice = {DerivedDevice, BaseDevice}"
  by (simp add: LeafDevice_def ancestors_new DerivedDevice_ancestors)

lemma MixedDevice_ancestors: "ancestors MixedDevice = {Mixin}"
  by (simp add: MixedDevice_def ancestors_new) (simp add: Mixin_def)

lemma device_types:
  "is_device_type BaseDevice" "is_device_type DerivedDevice" "is_device_type LeafDevice"
  by (simp_all add: BaseDevice_def DerivedDevice_def LeafDevice_def is_device_type_new)

lemma sorted_names: "sort [''status'', ''reboot'', ''info''] = [''info'', ''reboot'', ''status'']"
  by code_simp

text \<open>
  C4, as the code has it. Let \<open>D\<close> be a device type built by the metaclass from defined
  bases. Under a name that \<open>D\<close> declares, the registry of \<open>D\<close> holds a descriptor that
  \<open>D\<close> declares under it, the one \<open>D\<close> declares when there is only one, whatever the
  bases hold. Every name declared by an ancestor that is a device type is a key of
  the registry, and every entry of the registry is a declaration of \<open>D\<close> or of such
  an ancestor. A name that \<open>D\<close> does not declare is held with the descriptor on which
  the registries of the bases holding it agree: along a chain of single bases, that
  of the nearest declaring class.
\<close>

theorem registry_most_derived_wins:
  assumes "\<forall>b \<in> set bases. class_defined b"
      and "D = DeviceGroupMeta_new nm bases namespace"
  shows "device_group_commands D = Some (class_commands D)
       \<and> (\<forall>X d. declares D X d
             \<longrightarrow> (\<exists>d'. map_of (class_commands D) X = Some d' \<and> declares D X d'))
       \<and> (\<forall>X d. declares D X d \<and> (\<forall>d'. declares D X d' \<longrightarrow> d' = d)
             \<longrightarrow> map_of (class_commands D) X = Some d)
       \<and> (\<forall>A \<in> ancestors D. \<forall>n e. is_device_type A \<and> declares A n e
             \<longrightarrow> n \<in> fst ` set (class_commands D))
       \<and> (\<forall>n e. map_of (class_commands D) n = Some e
             \<longrightarrow> (\<exists>A \<in> insert D (ancestors D). is_device_type A \<and> declares A n e))
       \<and> (\<forall>n e. \<forall>b \<in> set bases.
             \<not> (\<exists>d. declares D n d) \<and> map_of (class_commands b) n = Some e
             \<and> (\<forall>b' \<in> set bases. \<forall>e'. map_of (class_commands b') n = Some e' \<longrightarrow> e' = e)
             \<longrightarrow> map_of (class_commands D) n = Some e)"
proof -
  have defined: "class_defined D"
    unfolding assms(2) using assms(1) by (rule class_defined_new)
  have reg: "device_group_commands D = Some (class_commands D)"
    unfolding assms(2) by (rule device_group_commands_new)
  have own: "\<exists>d'. map_of (class_commands D) X = Some d' \<and> declares D X d'"
    if "declares D X d" for X d
    using that unfolding assms(2) by (rule own_command_wins)
  have own_only: "map_of (class_commands D) X = Some d"
    if "declares D X d \<and> (\<forall>d'. declares D X d' \<longrightarrow> d' = d)" for X d
    using own [of X d] that by auto
  have covered: "n \<in> fst ` set (class_commands D)"
    if "A \<in> ancestors D" "is_device_type A \<and> declares A n e" for A n e
    using registry_coverage [OF defined] that by blast
  have provenance: "\<exists>A \<in> insert D (ancestors D). is_device_type A \<and> declares A n e"
    if "map_of (class_commands D) n = Some e" for n e
    using registry_provenance [OF defined] map_of_SomeD [OF that] by blast
  have inherited: "map_of (class_commands D) n = Some e"
    if "b \<in> set bases"
       "\<not> (\<exists>d. declares D n d) \<and> map_of (class_commands b) n = Some e
        \<and> (\<forall>b' \<in> set bases. \<forall>e'. map_of (class_commands b') n = Some e' \<longrightarrow> e' = e)"
    for n e b
    using that inherited_command [OF assms(1), of nm namespace n b e]
    unfolding assms(2) by blast
  show ?thesis
    using reg own own_only covered provenance inherited
    by (intro conjI allI ballI impI) blast+
qed

theorem registry_most_derived_wins_witness:
  "declares BaseDevice ''status'' (simple_cmd ''status'' 1)
   \<and> declares DerivedDevice ''status'' (simple_cmd ''status'' 3)
   \<and> simple_cmd ''status'' 3 \<noteq> simple_cmd ''status'' 1
   \<and> map_of (class_commands DerivedDevice) ''status'' = Some (simple_cmd ''status'' 3)
   \<and> map_of (class_commands LeafDevice) ''status'' = Some (simple_cmd ''status'' 3)
   \<and> declares BaseDevice ''reboot'' (simple_cmd ''reboot'' 2)
   \<and> ''reboot'' \<in> fst ` set (class_commands LeafDevice)
   \<and> map_of (class_commands LeafDevice) ''ping'' = Some (simple_cmd ''ping'' 5)"
proof -
  have basesD: "\<forall>b \<in> set [BaseDevice]. class_defined b"
    by (simp add: BaseDevice_defined)
  have D: "DerivedDevice = DeviceGroupMeta_new ''DerivedDevice'' [BaseDevice]
             [(''status'', NsVal True (Some (simple_cmd ''status'' 3))),
              (''info'', NsVal True (Some (simple_cmd ''info'' 4)))]"
    by (simp add: DerivedDevice_def)
  have basesL: "\<forall>b \<in> set [DerivedDevice]. class_defined b"
    by (simp add: DerivedDevice_defined)
  have L: "LeafDevice = DeviceGroupMeta_new ''LeafDevice'' [DerivedDevice]
             [(''ping'', NsVal True (Some (simple_cmd ''ping'' 5)))]"
    by (simp add: LeafDevice_def)
  note instD = registry_most_derived_wins [OF basesD D]
  note instL = registry_most_derived_wins [OF basesL L]
  have s1: "declares BaseDevice ''status'' (simple_cmd ''status'' 1)"
    and r2: "declares BaseDevice ''reboot'' (simple_cmd ''reboot'' 2)"
    and s3: "declares DerivedDevice ''status'' (simple_cmd ''status'' 3)
             \<and> (\<forall>d'. declares DerivedDevice ''status'' d' \<longrightarrow> d' = simple_cmd ''status'' 3)"
    and p5: "declares LeafDevice ''ping'' (simple_cmd ''ping'' 5)
             \<and> (\<forall>d'. declares LeafDevice ''ping'' d' \<longrightarrow> d' = simple_cmd ''ping'' 5)"
    and none: "\<not> (\<exists>d. declares LeafDevice ''status'' d)"
    by (simp_all add: BaseDevice_declares DerivedDevice_declares LeafDevice_declares)
  have derived: "map_of (class_commands DerivedDevice) ''status'' = Some (simple_cmd ''status'' 3)"
    using instD s3 by blast
  have agree: "\<forall>b' \<in> set [DerivedDevice]. \<forall>e'.
                 map_of (class_commands b') ''status'' = Some e' \<longrightarrow> e' = simple_cmd ''status'' 3"
    using derived by simp
  have mem: "DerivedDevice \<in> set [DerivedDevice]" by simp
  have leaf: "map_of (class_commands LeafDevice) ''status'' = Some (simple_cmd ''status'' 3)"
    using instL none derived agree mem by blast
  have anc: "BaseDevice \<in> ancestors LeafDevice"
    by (simp add: LeafDevice_ancestors)
  have reboot: "''reboot'' \<in> fst ` set (class_commands LeafDevice)"
    using instL anc r2 device_types(1) by blast
  have ping: "map_of (class_commands LeafDevice) ''ping'' = Some (simple_cmd ''ping'' 5)"
    using instL p5 by blast
  have "simple_cmd ''status'' 3 \<noteq> simple_cmd ''status'' 1"
    by (simp add: simple_cmd_def)
  with s1 s3 r2 derived leaf reboot ping show ?thesis
    by blast
qed

text \<open>
  C4 as stated fails on an ancestor that the metaclass did not build: the plain class
  \<open>Mixin\<close> tags the command \<^verbatim>\<open>foo\<close>, no other class declares that name, and the
  registry of the device type derived from \<open>Mixin\<close> has no entry for it. It also fails
  where the bases disagree: \<open>JoinedDevice\<close> lists \<open>DerivedDevice\<close> before its base
  \<open>BaseDevice\<close>, and its registry holds under \<^verbatim>\<open>status\<close> the descriptor of
  \<open>BaseDevice\<close>, which \<open>DerivedDevice\<close> redeclares.
\<close>

theorem registry_plain_ancestor_counterexample:
  "class_defined MixedDevice
   \<and> Mixin \<in> ancestors MixedDevice
   \<and> declares Mixin ''foo'' (simple_cmd ''foo'' 6)
   \<and> device_group_commands MixedDevice = Some (class_commands MixedDevice)
   \<and> map_of (class_commands MixedDevice) ''foo'' = None
   \<and> ''foo'' \<notin> fst ` set (class_commands MixedDevice)
   \<and> BaseDevice \<in> ancestors DerivedDevice
   \<and> declares BaseDevice ''status'' (simple_cmd ''status'' 1)
   \<and> declares DerivedDevice ''status'' (simple_cmd ''status'' 3)
   \<and> map_of (class_commands JoinedDevice) ''status'' = Some (simple_cmd ''status'' 1)
   \<and> simple_cmd ''status'' 1 \<noteq> simple_cmd ''status'' 3"
proof -
  have "device_group_commands MixedDevice = Some (class_commands MixedDevice)"
    unfolding MixedDevice_def by (rule device_group_commands_new)
  moreover have "simple_cmd ''status'' 1 \<noteq> simple_cmd ''status'' 3"
    by (simp add: simple_cmd_def)
  ultimately show ?thesis
    by (simp add: MixedDevice_defined MixedDevice_ancestors Mixin_declares MixedDevice_commands
                  DerivedDevice_ancestors BaseDevice_declares DerivedDevice_declares
                  JoinedDevice_commands)
qed

text \<open>
  C8, as the code has it. For a device type \<open>D\<close> built by the metaclass from defined
  bases, the command group of \<open>D\<close> is built without error, and \<^verbatim>\<open>list_commands\<close> returns
  the names in strictly ascending lexicographic order, none twice: exactly the names
  declared by \<open>D\<close> or by an ancestor of \<open>D\<close> that is a device type.
\<close>

theorem list_commands_sorted_complete:
  assumes "\<forall>b \<in> set bases. class_defined b"
      and "D = DeviceGroupMeta_new nm bases namespace"
  shows "\<exists>grp. DeviceGroup_init D = Inr grp
           \<and> sorted_wrt (<) (list_commands grp)
           \<and> distinct (list_commands grp)
           \<and> set (list_commands grp)
               = {n. \<exists>A \<in> insert D (ancestors D). is_device_type A \<and> (\<exists>e. declares A n e)}"
proof -
  let ?grp = "\<lparr>commands = class_commands D, device_class = D\<rparr>"
  have defined: "class_defined D"
    unfolding assms(2) using assms(1) by (rule class_defined_new)
  have init: "DeviceGroup_init D = Inr ?grp"
    unfolding assms(2) by (rule DeviceGroup_init_new)
  have dist: "distinct (map fst (class_commands D))"
    unfolding assms(2) by (rule distinct_class_commands_new)
  then have d: "distinct (list_commands ?grp)"
    by (simp add: list_commands_def)
  then have s: "sorted_wrt (<) (list_commands ?grp)"
    by (simp add: strict_sorted_iff list_commands_def)
  have "fst ` set (class_commands D)
          = {n. \<exists>A \<in> insert D (ancestors D). is_device_type A \<and> (\<exists>e. declares A n e)}"
  proof (intro set_eqI iffI)
    fix n
    assume "n \<in> fst ` set (class_commands D)"
    then obtain e where "(n, e) \<in> set (class_commands D)" by force
    with registry_provenance [OF defined]
    show "n \<in> {n. \<exists>A \<in> insert D (ancestors D). is_device_type A \<and> (\<exists>e. declares A n e)}"
      by blast
  next
    fix n
    assume "n \<in> {n. \<exists>A \<in> insert D (ancestors D). is_device_type A \<and> (\<exists>e. declares A n e)}"
    with registry_coverage [OF defined]
    show "n \<in> fst ` set (class_commands D)" by blast
  qed
  then have c: "set (list_commands ?grp)
                  = {n. \<exists>A \<in> insert D (ancestors D). is_device_type A \<and> (\<exists>e. declares A n e)}"
    by (simp add: list_commands_def)
  from init s d c show ?thesis by blast
qed

theorem list_commands_sorted_complete_witness:
  "DeviceGroup_init DerivedDevice
     = Inr \<lparr>commands = class_commands DerivedDevice, device_class = DerivedDevice\<rparr>
   \<and> list_commands \<lparr>commands = class_commands DerivedDevice, device_class = DerivedDevice\<rparr>
     = [''info'', ''reboot'', ''status'']
   \<and> set [''info'', ''reboot'', ''status'']
     = {n. \<exists>A \<in> {DerivedDevice, BaseDevice}. is_device_type A \<and> (\<exists>e. declares A n e)}"
proof -
  have bases: "\<forall>b \<in> set [BaseDevice]. class_defined b"
    by (simp add: BaseDevice_defined)
  have D: "DerivedDevice = DeviceGroupMeta_new ''DerivedDevice'' [BaseDevice]
             [(''status'', NsVal True (Some (simple_cmd ''status'' 3))),
              (''info'', NsVal True (Some (simple_cmd ''info'' 4)))]"
    by (simp add: DerivedDevice_def)
  from list_commands_sorted_complete [OF bases D] obtain grp
    where grp: "DeviceGroup_init DerivedDevice = Inr grp"
      and names: "set (list_commands grp)
                    = {n. \<exists>A \<in> insert DerivedDevice (ancestors DerivedDevice).
                            is_device_type A \<and> (\<exists>e. declares A n e)}"
    by blast
  have init: "DeviceGroup_init DerivedDevice
                = Inr \<lparr>commands = class_commands DerivedDevice, device_class = DerivedDevice\<rparr>"
    unfolding DerivedDevice_def by (rule DeviceGroup_init_new)
  have l: "list_commands \<lparr>commands = class_commands DerivedDevice, device_class = DerivedDevice\<rparr>
             = [''info'', ''reboot'', ''status'']"
    by (simp add: list_commands_def DerivedDevice_commands sorted_names)
  from grp init have "grp = \<lparr>commands = class_commands DerivedDevice, device_class = DerivedDevice\<rparr>"
    by simp
  with names l show ?thesis
    using init by (simp add: DerivedDevice_ancestors)
qed

text \<open>
  C8 as stated fails on an ancestor that the metaclass did not build: the plain class
  \<open>Mixin\<close> tags the command \<^verbatim>\<open>foo\<close>, and the list of the device type derived from it
  is \<^verbatim>\<open>status\<close> alone.
\<close>

theorem list_commands_plain_ancestor_counterexample:
  "DeviceGroup_init MixedDevice
     = Inr \<lparr>commands = class_commands MixedDevice, device_class = MixedDevice\<rparr>
   \<and> Mixin \<in> ancestors MixedDevice
   \<and> declares Mixin ''foo'' (simple_cmd ''foo'' 6)
   \<and> list_commands \<lparr>commands = class_commands MixedDevice, device_class = MixedDevice\<rparr>
     = [''status'']
   \<and> ''foo'' \<notin> set [''status'']"
proof -
  have "DeviceGroup_init MixedDevice
          = Inr \<lparr>commands = class_commands MixedDevice, device_class = MixedDevice\<rparr>"
    unfolding MixedDevice_def by (rule DeviceGroup_init_new)
  then show ?thesis
    by (simp add: MixedDevice_ancestors Mixin_declares MixedDevice_commands list_commands_def)
qed

end
